theory Spec2Isabelle
  imports Complex_Main
begin

text \<open>
  A model of the WhatsApp message capture service: the message processor
  (\<open>MessageProcessor\<close>, with the parts of \<open>AttachmentService\<close> it calls), the lifecycle
  handlers of \<open>PersistentWhatsAppClient\<close> (reconnection, health checks, shutdown, identity
  filter) and the group initialisation of both client classes. Asynchronous calls on the
  adapter are inputs of the model: each function takes what the call resolves to, or its
  rejection. Log statements are left out, except where evaluating their arguments can
  throw. Each handler runs to its end before the next one starts.
\<close>

section \<open>JavaScript values and string primitives\<close>

text \<open>
  Strings are lists of code units below 256. A property that may be \<open>undefined\<close> or
  \<open>null\<close> is a \<open>string option\<close>; JavaScript truthiness of such a value is
  \<open>truthy\<close>: \<open>undefined\<close>, \<open>null\<close> and the empty string are falsy.
  A rejected promise or a thrown exception is the left injection of a sum.
\<close>

datatype js_error = TypeError | RangeError | ReferenceError | Rejected

definition truthy :: "string option \<Rightarrow> bool" where
  "truthy v = (case v of None \<Rightarrow> False | Some s \<Rightarrow> s \<noteq> [])"

text \<open>\<open>a || b\<close> on possibly undefined strings.\<close>

definition js_or :: "string option \<Rightarrow> string option \<Rightarrow> string option" where
  "js_or a b = (if truthy a then a else b)"

text \<open>\<open>a || d\<close> with a string literal \<open>d\<close>.\<close>

definition or_default :: "string option \<Rightarrow> string \<Rightarrow> string" where
  "or_default a d = (case a of None \<Rightarrow> d | Some s \<Rightarrow> if s \<noteq> [] then s else d)"

text \<open>\<open>a || null\<close>.\<close>

definition or_null :: "string option \<Rightarrow> string option" where
  "or_null a = (if truthy a then a else None)"

text \<open>The characters matched by \<open>\s\<close> and removed by \<open>trim()\<close>, among code units below 256.\<close>

definition is_space :: "char \<Rightarrow> bool" where
  "is_space c = (c = CHR 0x09 \<or> c = CHR 0x0A \<or> c = CHR 0x0B \<or> c = CHR 0x0C
     \<or> c = CHR 0x0D \<or> c = CHR 0x20 \<or> c = CHR 0xA0)"

definition trim :: "string \<Rightarrow> string" where
  "trim s = rev (dropWhile is_space (rev (dropWhile is_space s)))"

text \<open>\<open>!a || a.trim() === ''\<close>.\<close>

definition blank :: "string option \<Rightarrow> bool" where
  "blank a = (case a of None \<Rightarrow> True | Some s \<Rightarrow> s = [] \<or> trim s = [])"

definition startsWith :: "string \<Rightarrow> string \<Rightarrow> bool" where
  "startsWith s p = (take (length p) s = p)"

fun js_includes :: "string \<Rightarrow> string \<Rightarrow> bool" where
  "js_includes [] p = (p = [])"
| "js_includes (c # cs) p = (startsWith (c # cs) p \<or> js_includes cs p)"

text \<open>\<open>s.replace(pat, '')\<close> with a string pattern: the first occurrence is removed.\<close>

fun replace_first :: "string \<Rightarrow> string \<Rightarrow> string" where
  "replace_first [] pat = []"
| "replace_first (c # cs) pat =
     (if startsWith (c # cs) pat then drop (length pat) (c # cs)
      else c # replace_first cs pat)"

text \<open>\<open>url.replace(/`/g, '')\<close>.\<close>

definition strip_backticks :: "string \<Rightarrow> string" where
  "strip_backticks s = filter (\<lambda>c. c \<noteq> CHR 0x60) s"

text \<open>\<open>s.split(sep)\<close> for a one-character separator.\<close>

fun split_on :: "char \<Rightarrow> string \<Rightarrow> string list" where
  "split_on sep [] = [[]]"
| "split_on sep (c # cs) =
     (if c = sep then [] # split_on sep cs
      else (case split_on sep cs of [] \<Rightarrow> [[c]] | p # ps \<Rightarrow> (c # p) # ps))"

text \<open>
  Decimal rendering of a non-negative integer, as a template literal renders a Number
  (the two agree below \<open>2^53\<close>, which covers every millisecond timestamp).
\<close>

definition digit_char :: "nat \<Rightarrow> char" where
  "digit_char d = char_of (48 + d)"

function show_nat :: "nat \<Rightarrow> string" where
  "show_nat n = (if n < 10 then [digit_char n] else show_nat (n div 10) @ [digit_char (n mod 10)])"
  by pat_completeness auto
termination
  by (relation "measure id") auto

declare show_nat.simps [simp del]

text \<open>
  The regular expression \<open>/(https?:\/\/[^\s]+)/g\<close>. \<open>url_at s\<close> is the match that
  starts at the first character of \<open>s\<close>, if there is one; \<open>match_urls\<close> is
  \<open>s.match(urlRegex)\<close>, where the empty list stands for \<open>null\<close>.
\<close>

definition url_at :: "string \<Rightarrow> string option" where
  "url_at s =
     (if startsWith s ''https://'' then
        (let body = takeWhile (\<lambda>c. \<not> is_space c) (drop 8 s)
         in if body = [] then None else Some (''https://'' @ body))
      else if startsWith s ''http://'' then
        (let body = takeWhile (\<lambda>c. \<not> is_space c) (drop 7 s)
         in if body = [] then None else Some (''http://'' @ body))
      else None)"

function match_urls :: "string \<Rightarrow> string list" where
  "match_urls s =
     (if s = [] then []
      else (case url_at s of
              None \<Rightarrow> match_urls (tl s)
            | Some m \<Rightarrow> m # match_urls (drop (length m) s)))"
  by pat_completeness auto
termination
  by (relation "measure length") (auto simp: url_at_def Let_def split: if_splits)

declare match_urls.simps [simp del]

text \<open>Milliseconds that \<open>new Date(ms).toISOString()\<close> accepts; beyond them it throws.\<close>

definition date_valid :: "nat \<Rightarrow> bool" where
  "date_valid ms = (ms \<le> 8640000000000000)"

section \<open>Attachment service\<close>

record saved_attachment =
  sa_type :: string
  sa_relativePath :: string

text \<open>
  \<open>AttachmentService.saveAttachment\<close>. \<open>now\<close> is \<open>new Date().getTime()\<close> and
  \<open>writeOk\<close> tells whether \<open>fs.promises.writeFile\<close> succeeds. An undefined MIME type
  makes \<open>mimeType.startsWith\<close> throw inside the \<open>try\<close>, which returns \<open>null\<close>.
\<close>

definition saveAttachment :: "nat \<Rightarrow> bool \<Rightarrow> string \<Rightarrow> string option \<Rightarrow> saved_attachment option" where
  "saveAttachment now writeOk fileName mimeType =
     (case mimeType of
        None \<Rightarrow> None
      | Some mt \<Rightarrow>
          (let isImage = startsWith mt ''image/'';
               isDocument = startsWith mt ''application/'';
               isVideo = startsWith mt ''video/'';
               isAudio = startsWith mt ''audio/''
           in if \<not> isImage \<and> \<not> isDocument \<and> \<not> isVideo \<and> \<not> isAudio then None
              else
                (let uniqueFileName = show_nat now @ ''_'' @ fileName;
                     res = (if isImage then
                              \<lparr>sa_type = ''image'', sa_relativePath = ''IMAGES/'' @ uniqueFileName\<rparr>
                            else if isVideo then
                              \<lparr>sa_type = ''video'', sa_relativePath = ''VIDEOS/'' @ uniqueFileName\<rparr>
                            else if isAudio then
                              \<lparr>sa_type = ''audio'', sa_relativePath = ''AUDIO/'' @ uniqueFileName\<rparr>
                            else
                              \<lparr>sa_type = ''document'', sa_relativePath = ''DOCUMENTS/'' @ uniqueFileName\<rparr>)
                 in if writeOk then Some res else None)))"

text \<open>\<open>AttachmentService.saveLinkAttachment\<close>: the \<open>url\<close> field of the returned record.\<close>

definition saveLinkAttachment :: "string \<Rightarrow> string option" where
  "saveLinkAttachment url = (if url = [] then None else Some (trim (strip_backticks url)))"

section \<open>Message processor\<close>

record media_data =
  media_bytes :: string
  mimetype :: "string option"
  filename :: "string option"

record quoted_message =
  q_id :: "string option"
  q_body :: "string option"
  q_type :: "string option"
  q_hasMedia :: bool
  q_timestamp :: "nat option"
  q_downloadMedia :: "js_error + media_data option"

record chat =
  chat_id :: "string option"
  chat_name :: "string option"
  chat_isGroup :: bool
  chat_participants :: "nat option"

record contact =
  contact_id :: "string option"
  pushname :: "string option"
  contact_name :: "string option"

text \<open>
  The raw message of the adapter. The asynchronous calls on it (\<open>getChat\<close>,
  \<open>getContact\<close>, \<open>getQuotedMessage\<close>, \<open>downloadMedia\<close>) are fields holding what the
  call resolves to, or the rejection. \<open>raw_id\<close>, \<open>chat_id\<close>, \<open>contact_id\<close> and
  \<open>q_id\<close> are \<open>id._serialized\<close>, \<open>None\<close> when \<open>id\<close> is undefined (reading
  \<open>_serialized\<close> then throws).
\<close>

record raw_message =
  raw_id :: "string option"
  raw_from :: "string option"
  raw_author :: "string option"
  raw_isStatus :: bool
  raw_body :: "string option"
  raw_type :: "string option"
  raw_timestamp :: "nat option"
  raw_hasQuotedMsg :: bool
  raw_getQuotedMessage :: "js_error + quoted_message option"
  raw_hasMedia :: bool
  raw_downloadMedia :: "js_error + media_data option"
  raw_getChat :: "js_error + chat"
  raw_getContact :: "js_error + contact"

record message_data =
  md_messageId :: string
  md_groupId :: string
  md_groupName :: "string option"
  md_senderId :: string
  md_senderName :: string
  md_messageText :: "string option"
  md_timestamp :: nat
  md_isGroup :: bool
  md_replyToMessageId :: "string option"
  md_replyText :: "string option"
  md_replyAttachmentType :: "string option"
  md_replyAttachmentPath :: "string option"
  md_attachmentType :: "string option"
  md_linkMetadata :: "string list option"
  md_imageAttachmentPath :: "string option"
  md_documentAttachmentPath :: "string option"
  md_videoAttachmentPath :: "string option"
  md_audioAttachmentPath :: "string option"
  md_batchAttachmentPath :: "string option"
  md_batchMetadata :: "string option"

record reply_data =
  rd_messageId :: string
  rd_messageText :: "string option"
  rd_attachmentType :: "string option"
  rd_attachmentPath :: "string option"
  rd_replyText :: "string option"

record link_data =
  ld_extractedLink :: string
  ld_linkMetadata :: "string list"

record attachment_paths =
  ap_imageAttachmentPath :: "string option"
  ap_documentAttachmentPath :: "string option"
  ap_videoAttachmentPath :: "string option"
  ap_audioAttachmentPath :: "string option"

record formatted_message =
  fm_groupId :: string
  fm_groupName :: "string option"
  fm_senderName :: string
  fm_messageText :: "string option"
  fm_timestamp :: nat
  fm_imageAttachmentPath :: "string option"
  fm_documentAttachmentPath :: "string option"
  fm_videoAttachmentPath :: "string option"
  fm_audioAttachmentPath :: "string option"
  fm_linkMetadata :: "string list option"
  fm_batchAttachmentPath :: "string option"
  fm_batchMetadata :: "string option"
  fm_replyToMessageId :: "string option"
  fm_replyText :: "string option"
  fm_replyAttachmentType :: "string option"
  fm_replyAttachmentPath :: "string option"
  fm_attachmentType :: "string option"

text \<open>\<open>ts ? new Date(ts * 1000) : new Date()\<close>, in milliseconds.\<close>

definition date_or_now :: "nat \<Rightarrow> nat option \<Rightarrow> nat" where
  "date_or_now now ts = (case ts of None \<Rightarrow> now | Some t \<Rightarrow> if t \<noteq> 0 then t * 1000 else now)"

text \<open>
  \<open>extractMessageData\<close>. Any failure inside its \<open>try\<close> reaches the \<open>catch\<close> block,
  which reads \<open>util\<close>, a constant declared inside the \<open>try\<close> block and so not in scope
  there: the function then throws a ReferenceError.
\<close>

definition extractMessageData :: "nat \<Rightarrow> raw_message \<Rightarrow> js_error + message_data" where
  "extractMessageData now raw =
     (case raw_getChat raw of
        Inl e \<Rightarrow> Inl ReferenceError
      | Inr ch \<Rightarrow>
     (case raw_getContact raw of
        Inl e \<Rightarrow> Inl ReferenceError
      | Inr co \<Rightarrow>
     (case chat_id ch of
        None \<Rightarrow> Inl ReferenceError
      | Some gid \<Rightarrow>
     if chat_isGroup ch \<and> chat_participants ch = None then Inl ReferenceError
     else
     (case contact_id co of
        None \<Rightarrow> Inl ReferenceError
      | Some sid \<Rightarrow>
     (case raw_id raw of
        None \<Rightarrow> Inl ReferenceError
      | Some mid \<Rightarrow>
          Inr \<lparr>md_messageId = mid,
               md_groupId = gid,
               md_groupName = chat_name ch,
               md_senderId = sid,
               md_senderName =
                 or_default (pushname co) (or_default (contact_name co) ''Unknown''),
               md_messageText = raw_body raw,
               md_timestamp = date_or_now now (raw_timestamp raw),
               md_isGroup = chat_isGroup ch,
               md_replyToMessageId = None,
               md_replyText = None,
               md_replyAttachmentType = None,
               md_replyAttachmentPath = None,
               md_attachmentType = None,
               md_linkMetadata = None,
               md_imageAttachmentPath = None,
               md_documentAttachmentPath = None,
               md_videoAttachmentPath = None,
               md_audioAttachmentPath = None,
               md_batchAttachmentPath = None,
               md_batchMetadata = None\<rparr>)))))"

text \<open>The locator synthesised for a quoted attachment: \<open>`${folder}/${ts}_attachment_${ts}.${ext}`\<close>.\<close>

definition synth_path :: "string \<Rightarrow> string \<Rightarrow> nat \<Rightarrow> string" where
  "synth_path folder ext ts = folder @ ''/'' @ show_nat ts @ ''_attachment_'' @ show_nat ts @ ''.'' @ ext"

text \<open>
  \<open>extractReplyData\<close>, first half: the attachment type and path taken from the downloaded
  media, or from a link in the body of a quoted message without media.
\<close>

definition reply_media_kind :: "nat \<Rightarrow> quoted_message \<Rightarrow> js_error + (string option \<times> string option)" where
  "reply_media_kind now q =
     (let ts = date_or_now now (q_timestamp q) in
      if q_hasMedia q then
        (case q_downloadMedia q of
           Inl e \<Rightarrow> Inl e
         | Inr None \<Rightarrow> Inr (None, None)
         | Inr (Some m) \<Rightarrow>
             (case mimetype m of
                None \<Rightarrow> Inr (None, None)
              | Some mt \<Rightarrow>
                  if mt = [] then Inr (None, None)
                  else if startsWith mt ''image/'' then
                    Inr (Some ''image'', Some (synth_path ''IMAGES'' ''jpg'' ts))
                  else if startsWith mt ''video/'' then
                    Inr (Some ''video'', Some (synth_path ''VIDEOS'' ''mp4'' ts))
                  else if startsWith mt ''audio/'' then
                    Inr (Some ''audio'', Some (synth_path ''AUDIO'' ''mp3'' ts))
                  else if startsWith mt ''application/'' then
                    Inr (Some ''document'', Some (synth_path ''DOCUMENTS'' ''pdf'' ts))
                  else Inr (None, None)))
      else
        (case q_body q of
           None \<Rightarrow> Inl TypeError
         | Some b \<Rightarrow>
             (case match_urls b of
                [] \<Rightarrow> Inr (None, None)
              | u # us \<Rightarrow> Inr (Some ''link'', Some u))))"

text \<open>
  \<open>extractReplyData\<close>. \<open>None\<close> as argument is a missing quoted message. A failure
  inside the \<open>try\<close> reaches a \<open>catch\<close> block that reads the out-of-scope \<open>util\<close>.
\<close>

definition extractReplyData :: "nat \<Rightarrow> quoted_message option \<Rightarrow> js_error + reply_data option" where
  "extractReplyData now qo =
     (case qo of
        None \<Rightarrow> Inr None
      | Some q \<Rightarrow>
          (case reply_media_kind now q of
             Inl e \<Rightarrow> Inl ReferenceError
           | Inr (attachmentType0, attachmentPath0) \<Rightarrow>
               (let ts = date_or_now now (q_timestamp q);
                    replyText0 = q_body q;
                    replyText1 =
                      (if attachmentType0 = Some ''video'' \<and> blank replyText0
                       then attachmentPath0 else replyText0);
                    (attachmentType1, attachmentPath1) =
                      (if q_hasMedia q \<and> \<not> truthy attachmentType0 \<and> q_type q = Some ''video''
                       then (Some ''video'', Some (synth_path ''VIDEOS'' ''mp4'' ts))
                       else (attachmentType0, attachmentPath0));
                    attachmentPath2 =
                      (if attachmentType1 = Some ''video'' \<and> \<not> truthy attachmentPath1
                       then Some (synth_path ''VIDEOS'' ''mp4'' ts) else attachmentPath1)
                in (case q_id q of
                      None \<Rightarrow> Inl ReferenceError
                    | Some qid \<Rightarrow>
                        Inr (Some \<lparr>rd_messageId = qid,
                                   rd_messageText = q_body q,
                                   rd_attachmentType = attachmentType1,
                                   rd_attachmentPath = attachmentPath2,
                                   rd_replyText = replyText1\<rparr>)))))"

text \<open>The reply block of \<open>processMessage\<close>, once \<open>extractReplyData\<close> has returned a record.\<close>

definition infer_type_from_path :: "string \<Rightarrow> string option" where
  "infer_type_from_path p =
     (if js_includes p ''VIDEOS/'' then Some ''video''
      else if js_includes p ''AUDIO/'' then Some ''audio''
      else if js_includes p ''IMAGES/'' then Some ''image''
      else if js_includes p ''DOCUMENTS/'' then Some ''document''
      else None)"

definition applyReply :: "nat \<Rightarrow> quoted_message \<Rightarrow> reply_data \<Rightarrow> message_data \<Rightarrow> message_data" where
  "applyReply now q qd md =
     (let md1 = md\<lparr>md_replyToMessageId := Some (rd_messageId qd),
                    md_replyText := js_or (rd_replyText qd) (rd_messageText qd),
                    md_replyAttachmentType := rd_attachmentType qd,
                    md_replyAttachmentPath := rd_attachmentPath qd,
                    md_attachmentType := or_null (md_attachmentType md)\<rparr>;
          md2 = (case md_replyAttachmentPath md1 of
                   None \<Rightarrow> md1
                 | Some p \<Rightarrow>
                     if p \<noteq> [] \<and> \<not> truthy (md_replyAttachmentType md1)
                     then (case infer_type_from_path p of
                             None \<Rightarrow> md1
                           | Some t \<Rightarrow> md1\<lparr>md_replyAttachmentType := Some t\<rparr>)
                     else md1);
          md3 = (if rd_attachmentType qd = Some ''video'' \<and> blank (md_replyText md2)
                 then md2\<lparr>md_replyText := rd_attachmentPath qd\<rparr> else md2);
          ts = date_or_now now (q_timestamp q)
      in if q_hasMedia q then
           (if q_type q = Some ''video'' \<and> \<not> truthy (md_replyAttachmentType md3) then
              (let md4 = md3\<lparr>md_replyAttachmentType := Some ''video''\<rparr>
               in if \<not> truthy (md_replyAttachmentPath md4)
                  then md4\<lparr>md_replyAttachmentPath := Some (synth_path ''VIDEOS'' ''mp4'' ts)\<rparr>
                  else md4)
            else if q_type q = Some ''audio'' \<and> \<not> truthy (md_replyAttachmentType md3) then
              (let md4 = md3\<lparr>md_replyAttachmentType := Some ''audio''\<rparr>
               in if \<not> truthy (md_replyAttachmentPath md4)
                  then md4\<lparr>md_replyAttachmentPath := Some (synth_path ''AUDIO'' ''mp3'' ts)\<rparr>
                  else md4)
            else md3)
         else md3)"

text \<open>
  The whole reply step with its \<open>try/catch\<close>: a rejected \<open>getQuotedMessage\<close>, a missing
  quoted message (reading \<open>quotedMsg.hasMedia\<close> throws) and a throwing
  \<open>extractReplyData\<close> all leave the message data as they were.
\<close>

definition processReply :: "nat \<Rightarrow> raw_message \<Rightarrow> message_data \<Rightarrow> message_data" where
  "processReply now raw md =
     (if raw_hasQuotedMsg raw then
        (case raw_getQuotedMessage raw of
           Inl e \<Rightarrow> md
         | Inr None \<Rightarrow> md
         | Inr (Some q) \<Rightarrow>
             (case extractReplyData now (Some q) of
                Inl e \<Rightarrow> md
              | Inr None \<Rightarrow> md
              | Inr (Some qd) \<Rightarrow> applyReply now q qd md))
      else md)"

text \<open>\<open>extractAndProcessLinks\<close>; \<open>None\<close> is \<open>null\<close>.\<close>

definition clean_url :: "string \<Rightarrow> string" where
  "clean_url url = trim (strip_backticks url)"

fun collect_links :: "string list \<Rightarrow> string list" where
  "collect_links [] = []"
| "collect_links (url # rest) =
     (case saveLinkAttachment (clean_url url) of
        None \<Rightarrow> collect_links rest
      | Some u \<Rightarrow> if u \<noteq> [] then u # collect_links rest else collect_links rest)"

definition extractAndProcessLinks :: "string option \<Rightarrow> link_data option" where
  "extractAndProcessLinks text =
     (case text of
        None \<Rightarrow> None
      | Some t \<Rightarrow>
          if t = [] then None
          else
            (case match_urls t of
               [] \<Rightarrow> None
             | m0 # ms \<Rightarrow>
                 (let links = collect_links (m0 # ms) in
                  if links = [] then None
                  else Some \<lparr>ld_extractedLink = m0, ld_linkMetadata = links\<rparr>)))"

definition processLinks :: "message_data \<Rightarrow> message_data" where
  "processLinks md =
     (case extractAndProcessLinks (md_messageText md) of
        None \<Rightarrow> md
      | Some ld \<Rightarrow>
          (let md1 = md\<lparr>md_linkMetadata := Some (ld_linkMetadata ld)\<rparr>
           in if ld_extractedLink ld \<noteq> [] then
                md1\<lparr>md_messageText :=
                       map_option (\<lambda>t. trim (replace_first t (ld_extractedLink ld)))
                         (md_messageText md1)\<rparr>
              else md1))"

text \<open>
  \<open>MessageProcessor.getFileExtensionFromMimeType\<close>. The lookup table holds its own
  keys only; the keys an object inherits contain no slash and are no MIME type.
\<close>

definition mimeToExt :: "string \<Rightarrow> string option" where
  "mimeToExt = map_of
     [(''image/jpeg'', ''jpg''),
      (''image/png'', ''png''),
      (''image/gif'', ''gif''),
      (''image/webp'', ''webp''),
      (''application/pdf'', ''pdf''),
      (''application/vnd.openxmlformats-officedocument.wordprocessingml.document'', ''docx''),
      (''application/vnd.openxmlformats-officedocument.spreadsheetml.sheet'', ''xlsx''),
      (''application/msword'', ''doc''),
      (''application/vnd.ms-excel'', ''xls''),
      (''video/mp4'', ''mp4''),
      (''video/quicktime'', ''mov''),
      (''video/x-msvideo'', ''avi''),
      (''video/webm'', ''webm''),
      (''video/ogg'', ''ogv''),
      (''video/mpeg'', ''mpg''),
      (''video/3gpp'', ''mp4''),
      (''video/x-matroska'', ''mkv'')]"

definition getFileExtensionFromMimeType :: "string option \<Rightarrow> string" where
  "getFileExtensionFromMimeType mimeType =
     (case mimeType of
        None \<Rightarrow> ''bin''
      | Some mt \<Rightarrow>
          if mt \<noteq> [] \<and> startsWith mt ''video/'' then
            (case mimeToExt mt of Some ext \<Rightarrow> ext | None \<Rightarrow> ''mp4'')
          else
            (case (if mimeToExt mt = None \<and> mt \<noteq> [] then
                     (case split_on CHR ''/'' mt of
                        [p0, p1] \<Rightarrow> if p1 \<noteq> [] then Some (takeWhile (\<lambda>c. c \<noteq> CHR '';'') p1) else None
                      | _ \<Rightarrow> None)
                   else None) of
               Some ext \<Rightarrow> ext
             | None \<Rightarrow> (case mimeToExt mt of Some ext \<Rightarrow> ext | None \<Rightarrow> ''bin'')))"

text \<open>
  \<open>processAttachment\<close>. Its \<open>catch\<close> block reads the out-of-scope \<open>util\<close> as well, so
  a rejected download leaves it by an exception, which the caller catches.
\<close>

definition processAttachment :: "nat \<Rightarrow> bool \<Rightarrow> raw_message \<Rightarrow> js_error + attachment_paths option" where
  "processAttachment now writeOk raw =
     (case raw_downloadMedia raw of
        Inl e \<Rightarrow> Inl ReferenceError
      | Inr None \<Rightarrow> Inr None
      | Inr (Some m) \<Rightarrow>
          if media_bytes m = [] then Inr None
          else
            (let attachmentFilename =
                   or_default (filename m)
                     (''attachment_'' @ show_nat now @ ''.'' @ getFileExtensionFromMimeType (mimetype m))
             in (case saveAttachment now writeOk attachmentFilename (mimetype m) of
                   None \<Rightarrow> Inr None
                 | Some saved \<Rightarrow>
                     (let result = \<lparr>ap_imageAttachmentPath = None,
                                     ap_documentAttachmentPath = None,
                                     ap_videoAttachmentPath = None,
                                     ap_audioAttachmentPath = None\<rparr>
                      in Inr (Some
                           (if sa_type saved = ''image'' then
                              result\<lparr>ap_imageAttachmentPath := Some (sa_relativePath saved)\<rparr>
                            else if sa_type saved = ''document'' then
                              result\<lparr>ap_documentAttachmentPath := Some (sa_relativePath saved)\<rparr>
                            else if sa_type saved = ''video'' then
                              result\<lparr>ap_videoAttachmentPath := Some (sa_relativePath saved)\<rparr>
                            else if sa_type saved = ''audio'' then
                              result\<lparr>ap_audioAttachmentPath := Some (sa_relativePath saved)\<rparr>
                            else result))))))"

text \<open>\<open>isBatchAttachment\<close> is a placeholder that answers \<open>false\<close>; \<open>processBatchAttachment\<close> returns \<open>null\<close>.\<close>

definition isBatchAttachment :: "raw_message \<Rightarrow> bool" where
  "isBatchAttachment raw = False"

definition processMedia :: "nat \<Rightarrow> bool \<Rightarrow> raw_message \<Rightarrow> message_data \<Rightarrow> message_data" where
  "processMedia now writeOk raw md =
     (if raw_hasMedia raw then
        (if isBatchAttachment raw then md
         else
           (case processAttachment now writeOk raw of
              Inl e \<Rightarrow> md
            | Inr None \<Rightarrow> md
            | Inr (Some a) \<Rightarrow>
                md\<lparr>md_imageAttachmentPath := ap_imageAttachmentPath a,
                   md_documentAttachmentPath := ap_documentAttachmentPath a,
                   md_videoAttachmentPath := ap_videoAttachmentPath a,
                   md_audioAttachmentPath := ap_audioAttachmentPath a\<rparr>))
      else md)"

text \<open>
  \<open>validateMessage\<close>. An undefined message text makes \<open>message.messageText.trim()\<close>
  throw. Both branches of the emptiness test return \<open>true\<close>, as in the source.
\<close>

definition validateMessage :: "message_data \<Rightarrow> js_error + bool" where
  "validateMessage message =
     (if (md_isGroup message \<and> md_groupId message = []) \<or> md_senderName message = []
      then Inr False
      else
        (case md_messageText message of
           None \<Rightarrow> Inl TypeError
         | Some t \<Rightarrow>
             if trim t = []
                \<and> \<not> truthy (md_imageAttachmentPath message)
                \<and> \<not> truthy (md_documentAttachmentPath message)
                \<and> \<not> truthy (md_videoAttachmentPath message)
                \<and> \<not> truthy (md_audioAttachmentPath message)
                \<and> md_linkMetadata message = None
                \<and> \<not> truthy (md_batchAttachmentPath message)
                \<and> \<not> truthy (md_replyToMessageId message)
             then Inr True
             else Inr True))"

text \<open>\<open>formatMessageData\<close>: the repairs of the reply fields, then the unified attachment type.\<close>

definition fix_reply_fields :: "nat \<Rightarrow> message_data \<Rightarrow> message_data" where
  "fix_reply_fields now message =
     (let m1 = (if md_replyAttachmentType message = Some ''video'' \<and> blank (md_replyText message)
                   \<and> truthy (md_replyAttachmentPath message)
                then message\<lparr>md_replyText := md_replyAttachmentPath message\<rparr> else message);
          m2 = (case md_replyAttachmentPath m1 of
                  None \<Rightarrow> m1
                | Some p \<Rightarrow>
                    if p = [] then m1
                    else if js_includes p ''VIDEOS/'' \<and> \<not> truthy (md_replyAttachmentType m1)
                      then m1\<lparr>md_replyAttachmentType := Some ''video''\<rparr>
                    else if js_includes p ''AUDIO/'' \<and> \<not> truthy (md_replyAttachmentType m1)
                      then m1\<lparr>md_replyAttachmentType := Some ''audio''\<rparr>
                    else m1)
      in if truthy (md_replyAttachmentType m2) \<and> \<not> truthy (md_replyAttachmentPath m2) then
           (if md_replyAttachmentType m2 = Some ''video''
              then m2\<lparr>md_replyAttachmentPath := Some (synth_path ''VIDEOS'' ''mp4'' now)\<rparr>
            else if md_replyAttachmentType m2 = Some ''audio''
              then m2\<lparr>md_replyAttachmentPath := Some (synth_path ''AUDIO'' ''mp3'' now)\<rparr>
            else m2)
         else m2)"

definition unified_type :: "message_data \<Rightarrow> string option" where
  "unified_type message =
     (if truthy (md_imageAttachmentPath message) then Some ''image''
      else if truthy (md_videoAttachmentPath message) then Some ''video''
      else if truthy (md_audioAttachmentPath message) then Some ''audio''
      else if truthy (md_documentAttachmentPath message) then Some ''document''
      else if md_linkMetadata message \<noteq> None then Some ''link''
      else if truthy (md_batchAttachmentPath message) then Some ''batch''
      else None)"

definition formatMessageData :: "nat \<Rightarrow> message_data \<Rightarrow> formatted_message" where
  "formatMessageData now message0 =
     (let message = fix_reply_fields now message0 in
      \<lparr>fm_groupId = md_groupId message,
       fm_groupName = md_groupName message,
       fm_senderName = md_senderName message,
       fm_messageText = md_messageText message,
       fm_timestamp = md_timestamp message,
       fm_imageAttachmentPath = or_null (md_imageAttachmentPath message),
       fm_documentAttachmentPath = or_null (md_documentAttachmentPath message),
       fm_videoAttachmentPath = or_null (md_videoAttachmentPath message),
       fm_audioAttachmentPath = or_null (md_audioAttachmentPath message),
       fm_linkMetadata = md_linkMetadata message,
       fm_batchAttachmentPath = or_null (md_batchAttachmentPath message),
       fm_batchMetadata = or_null (md_batchMetadata message),
       fm_replyToMessageId = or_null (md_replyToMessageId message),
       fm_replyText = or_null (md_replyText message),
       fm_replyAttachmentType = or_null (md_replyAttachmentType message),
       fm_replyAttachmentPath = or_null (md_replyAttachmentPath message),
       fm_attachmentType = js_or (md_attachmentType message) (unified_type message)\<rparr>)"

text \<open>
  \<open>processMessage\<close>. \<open>processMessage_steps\<close> is the body of its outer \<open>try\<close>, with the
  exception that would leave it as \<open>Inl\<close>; \<open>processMessage\<close> adds the \<open>catch\<close>, which
  returns \<open>null\<close>. The first log line calls \<open>toISOString\<close> on the message's date, which
  throws a RangeError on a date out of range.
\<close>

definition processMessage_steps :: "nat \<Rightarrow> bool \<Rightarrow> raw_message \<Rightarrow> js_error + formatted_message option" where
  "processMessage_steps now writeOk rawMessage =
     (if (case raw_timestamp rawMessage of
            None \<Rightarrow> False
          | Some t \<Rightarrow> t \<noteq> 0 \<and> \<not> date_valid (t * 1000))
      then Inl RangeError
      else
        (case extractMessageData now rawMessage of
           Inl e \<Rightarrow> Inl e
         | Inr messageData0 \<Rightarrow>
             (let messageData1 = processReply now rawMessage messageData0;
                  messageData2 = processLinks messageData1;
                  messageData3 = processMedia now writeOk rawMessage messageData2
              in (case validateMessage messageData3 of
                    Inl e \<Rightarrow> Inl e
                  | Inr False \<Rightarrow> Inr None
                  | Inr True \<Rightarrow> Inr (Some (formatMessageData now messageData3))))))"

definition processMessage :: "nat \<Rightarrow> bool \<Rightarrow> raw_message \<Rightarrow> formatted_message option" where
  "processMessage now writeOk rawMessage =
     (case processMessage_steps now writeOk rawMessage of
        Inl e \<Rightarrow> None
      | Inr r \<Rightarrow> r)"

section \<open>Persistent client: state, timers and session files\<close>

text \<open>
  The fields of \<open>PersistentWhatsAppClient\<close> that its lifecycle handlers read and write.
  \<open>client\<close> tells whether \<open>this.client\<close> is set; the three interval fields tell whether
  the interval is armed. \<open>timeouts\<close> are the pending \<open>setTimeout\<close> callbacks with their
  delay in milliseconds, \<open>trace\<close> records the calls that arm or clear a timer or tear the
  adapter down, in the order they are made. \<open>session_dir\<close> is the content of the session
  directory (\<open>None\<close> when it does not exist). Times are milliseconds; delays are computed
  in exact arithmetic where the source uses double-precision \<open>Math.pow\<close>.
\<close>

datatype interval_name = ConnectionMonitor | LockRefresh | GroupRefresh | BackupCleanup

datatype task =
    ReconnectAfterDisconnect string bool
  | ResetAfterCooldown
  | ReconnectAfterStale
  | RetryInitialization bool
  | RecoveryAfterError
  | PartialGroupRefresh
  | FirstGroupLoad
  | SecondGroupLoad
  | HandleAuthFailure
  | AuthRetry

datatype action =
    SetInterval interval_name
  | ClearInterval interval_name
  | SetTimeout real task
  | DestroyClient
  | InitializeAdapter

record client_state =
  client :: bool
  businessPhoneNumber :: "string option"
  reconnectAttempts :: nat
  maxReconnectAttempts :: nat
  isClientReady :: bool
  isAuthenticated :: bool
  connectionMonitor :: bool
  lockRefreshInterval :: bool
  groupRefreshInterval :: bool
  lastHeartbeat :: int
  staleConnectionCount :: nat
  lastStaleConnectionTime :: "int option"
  partialGroupRefreshScheduled :: bool
  useRemoteAuth :: bool
  session_dir :: "string list option"
  timeouts :: "(real \<times> task) list"
  trace :: "action list"

text \<open>The constructor.\<close>

definition new_client :: "int \<Rightarrow> bool \<Rightarrow> string list option \<Rightarrow> client_state" where
  "new_client now remoteAuth dir =
     \<lparr>client = False,
      businessPhoneNumber = None,
      reconnectAttempts = 0,
      maxReconnectAttempts = 20,
      isClientReady = False,
      isAuthenticated = False,
      connectionMonitor = False,
      lockRefreshInterval = False,
      groupRefreshInterval = False,
      lastHeartbeat = now,
      staleConnectionCount = 0,
      lastStaleConnectionTime = None,
      partialGroupRefreshScheduled = False,
      useRemoteAuth = remoteAuth,
      session_dir = dir,
      timeouts = [],
      trace = []\<rparr>"

definition setTimeout :: "real \<Rightarrow> task \<Rightarrow> client_state \<Rightarrow> client_state" where
  "setTimeout delay t s = s\<lparr>timeouts := timeouts s @ [(delay, t)], trace := trace s @ [SetTimeout delay t]\<rparr>"

definition checkExistingAuth :: "client_state \<Rightarrow> bool" where
  "checkExistingAuth s =
     (if useRemoteAuth s then True
      else (case session_dir s of
              None \<Rightarrow> False
            | Some files \<Rightarrow>
                list_ex (\<lambda>file. js_includes file ''session'' \<or> js_includes file ''auth''
                                \<or> js_includes file ''.json'') files))"

definition clearSession :: "client_state \<Rightarrow> client_state" where
  "clearSession s = s\<lparr>session_dir := None\<rparr>"

definition ensureProperPermissions :: "client_state \<Rightarrow> client_state" where
  "ensureProperPermissions s =
     (case session_dir s of None \<Rightarrow> s\<lparr>session_dir := Some []\<rparr> | Some files \<Rightarrow> s)"

definition stopConnectionMonitoring :: "client_state \<Rightarrow> client_state" where
  "stopConnectionMonitoring s =
     (let s1 = (if connectionMonitor s
                then s\<lparr>connectionMonitor := False, trace := trace s @ [ClearInterval ConnectionMonitor]\<rparr>
                else s)
      in if groupRefreshInterval s1
         then s1\<lparr>groupRefreshInterval := False, trace := trace s1 @ [ClearInterval GroupRefresh]\<rparr>
         else s1)"

definition startConnectionMonitoring :: "client_state \<Rightarrow> client_state" where
  "startConnectionMonitoring s =
     (let s1 = stopConnectionMonitoring s;
          s2 = s1\<lparr>connectionMonitor := True,
                  trace := trace s1 @ [SetInterval ConnectionMonitor, SetInterval BackupCleanup]\<rparr>;
          s3 = (if groupRefreshInterval s2
                then s2\<lparr>trace := trace s2 @ [ClearInterval GroupRefresh]\<rparr> else s2)
      in s3\<lparr>groupRefreshInterval := True, trace := trace s3 @ [SetInterval GroupRefresh]\<rparr>)"

section \<open>Reconnection scheduler\<close>

text \<open>The delay of \<open>handleDisconnection\<close>, as a function of the incremented attempt count.\<close>

definition reconnect_delay :: "nat \<Rightarrow> real" where
  "reconnect_delay attempts = min (20000 * (12 / 10) ^ (attempts - 1)) 180000"

text \<open>
  \<open>handleDisconnection\<close>, up to the arming of its timer. The timer captures the reason
  and the answer of \<open>checkExistingAuth\<close> at this moment.
\<close>

definition handleDisconnection :: "string \<Rightarrow> client_state \<Rightarrow> client_state" where
  "handleDisconnection reason s =
     (let s1 = stopConnectionMonitoring s in
      if reconnectAttempts s1 \<ge> maxReconnectAttempts s1 then
        setTimeout (30 * 60 * 1000) ResetAfterCooldown s1
      else
        (let s2 = s1\<lparr>reconnectAttempts := reconnectAttempts s1 + 1\<rparr>;
             delay = reconnect_delay (reconnectAttempts s2);
             hasSessionFiles = checkExistingAuth s2
         in setTimeout delay (ReconnectAfterDisconnect reason hasSessionFiles) s2))"

text \<open>The \<open>forceNewSession\<close> expression inside the timer callback of \<open>handleDisconnection\<close>.\<close>

definition forceNewSession :: "string \<Rightarrow> bool \<Rightarrow> client_state \<Rightarrow> bool" where
  "forceNewSession reason hasSessionFiles s =
     ((reason = ''LOGOUT'' \<or> reason = ''UNPAIRED'' \<or> reason = ''UNPAIRED_DEVICE'')
      \<or> \<not> hasSessionFiles
      \<or> reconnectAttempts s > 5)"

text \<open>\<open>error.message.toLowerCase()\<close> on ASCII letters.\<close>

definition toLowerCase :: "string \<Rightarrow> string" where
  "toLowerCase msg =
     map (\<lambda>c. let n = (of_char c :: nat) in if 65 \<le> n \<and> n \<le> 90 then char_of (n + 32) else c) msg"

text \<open>\<open>handleInitializationFailure\<close>.\<close>

definition handleInitializationFailure :: "string \<Rightarrow> client_state \<Rightarrow> client_state" where
  "handleInitializationFailure message s =
     (let s1 = s\<lparr>reconnectAttempts := reconnectAttempts s + 1\<rparr>;
          errorMessage = toLowerCase message;
          additionalDelay =
            (if js_includes errorMessage ''protocol error''
                \<or> js_includes errorMessage ''session closed''
                \<or> js_includes errorMessage ''browser has disconnected''
                \<or> js_includes errorMessage ''target closed''
                \<or> js_includes errorMessage ''connection reset'' then 5000
             else if js_includes errorMessage ''enoent''
                \<or> js_includes errorMessage ''failed to launch''
                \<or> js_includes errorMessage ''executable path'' then 10000
             else (0::real))
      in if reconnectAttempts s1 < maxReconnectAttempts s1 then
           (let baseDelay = 15000 + additionalDelay;
                delay = min (baseDelay * (15 / 10) ^ (reconnectAttempts s1 - 1)) 180000
            in setTimeout delay
                 (RetryInitialization (js_includes errorMessage ''auth'' \<or> js_includes errorMessage ''session''))
                 s1)
         else s1)"

text \<open>
  \<open>destroyExistingClient\<close>: whether \<open>destroy\<close> succeeds, fails or times out, the client
  is dropped.
\<close>

definition destroyExistingClient :: "client_state \<Rightarrow> client_state" where
  "destroyExistingClient s =
     (if client s then
        (let s1 = stopConnectionMonitoring s
         in s1\<lparr>client := False, isClientReady := False, trace := trace s1 @ [DestroyClient]\<rparr>)
      else s)"

text \<open>
  \<open>initializeClient\<close>. \<open>startResult\<close> is what \<open>client.initialize()\<close> does: \<open>None\<close>
  when it resolves, the error message when it throws. The lock file is written before a
  forced clearing of the session, which removes the directory with it. The \<open>finally\<close>
  block arms the lock refresh, clearing a previous one first.
\<close>

definition initializeClient :: "bool \<Rightarrow> string option \<Rightarrow> client_state \<Rightarrow> client_state" where
  "initializeClient forceNew startResult s =
     (let s1 = ensureProperPermissions s;
          s2 = s1\<lparr>session_dir :=
                    map_option (\<lambda>files. if ''session.lock'' \<in> set files then files
                                         else files @ [''session.lock'']) (session_dir s1)\<rparr>;
          s3 = (if forceNew then (clearSession s2)\<lparr>isAuthenticated := False\<rparr> else s2);
          s4 = destroyExistingClient s3;
          s5 = s4\<lparr>client := True, trace := trace s4 @ [InitializeAdapter]\<rparr>;
          s6 = (case startResult of None \<Rightarrow> s5 | Some message \<Rightarrow> handleInitializationFailure message s5);
          s7 = (if lockRefreshInterval s6
                then s6\<lparr>trace := trace s6 @ [ClearInterval LockRefresh]\<rparr> else s6)
      in s7\<lparr>lockRefreshInterval := True, trace := trace s7 @ [SetInterval LockRefresh]\<rparr>)"

section \<open>Adapter events\<close>

text \<open>The \<open>authenticated\<close> event.\<close>

definition on_authenticated :: "client_state \<Rightarrow> client_state" where
  "on_authenticated s = s\<lparr>isAuthenticated := True, reconnectAttempts := 0\<rparr>"

text \<open>
  The \<open>ready\<close> event. \<open>info\<close> is \<open>client.info.wid.user\<close>, \<open>None\<close> when reading it
  throws (the handler catches that and goes on).
\<close>

definition on_ready :: "int \<Rightarrow> string option \<Rightarrow> client_state \<Rightarrow> client_state" where
  "on_ready now info s =
     (let s1 = s\<lparr>isClientReady := True, isAuthenticated := True, lastHeartbeat := now\<rparr>;
          s2 = (case info of None \<Rightarrow> s1 | Some user \<Rightarrow> s1\<lparr>businessPhoneNumber := Some user\<rparr>);
          s3 = s2\<lparr>reconnectAttempts := 0\<rparr>;
          s4 = startConnectionMonitoring s3
      in setTimeout 15000 FirstGroupLoad s4)"

text \<open>The \<open>disconnected\<close> event.\<close>

definition isLogout :: "string \<Rightarrow> bool" where
  "isLogout reason =
     (reason = ''UNPAIRED'' \<or> reason = ''UNPAIRED_DEVICE'' \<or> reason = ''LOGOUT''
      \<or> js_includes reason ''LOGOUT'')"

definition on_disconnected :: "string \<Rightarrow> client_state \<Rightarrow> client_state" where
  "on_disconnected reason s =
     (let s1 = s\<lparr>isClientReady := False\<rparr>;
          s2 = (if isLogout reason then clearSession (s1\<lparr>isAuthenticated := False\<rparr>) else s1)
      in handleDisconnection reason s2)"

text \<open>The \<open>change_state\<close> event and the heartbeat of the \<open>message\<close> event.\<close>

definition on_change_state :: "int \<Rightarrow> string \<Rightarrow> client_state \<Rightarrow> client_state" where
  "on_change_state now st s =
     (if st = ''CONNECTED'' then s\<lparr>isClientReady := True, lastHeartbeat := now\<rparr>
      else if st = ''DISCONNECTED'' \<or> st = ''UNPAIRED'' then s\<lparr>isClientReady := False\<rparr>
      else s)"

definition on_message_heartbeat :: "int \<Rightarrow> client_state \<Rightarrow> client_state" where
  "on_message_heartbeat now s = s\<lparr>lastHeartbeat := now\<rparr>"

section \<open>Health monitor\<close>

text \<open>The delay of \<open>handleConnectionStale\<close>, as a function of the stale counter.\<close>

definition stale_delay :: "nat \<Rightarrow> real" where
  "stale_delay count = min (10000 * (15 / 10) ^ (count - 1)) 60000"

definition handleConnectionStale :: "int \<Rightarrow> client_state \<Rightarrow> client_state" where
  "handleConnectionStale now s =
     (let s1 = s\<lparr>isClientReady := False\<rparr>;
          s2 = (case lastStaleConnectionTime s1 of
                  None \<Rightarrow> s1\<lparr>lastStaleConnectionTime := Some now, staleConnectionCount := 1\<rparr>
                | Some lastStale \<Rightarrow>
                    (if now - lastStale < 5 * 60 * 1000
                     then s1\<lparr>staleConnectionCount := staleConnectionCount s1 + 1\<rparr>
                     else s1\<lparr>staleConnectionCount := 1\<rparr>)
                    \<lparr>lastStaleConnectionTime := Some now\<rparr>)
      in setTimeout (stale_delay (staleConnectionCount s2)) ReconnectAfterStale s2)"

text \<open>
  \<open>performActiveHealthCheck\<close>. The two arguments tell whether the state probe and the
  battery probe answer within their timeouts; the second is tried only when the first fails.
\<close>

definition performActiveHealthCheck :: "int \<Rightarrow> bool \<Rightarrow> bool \<Rightarrow> client_state \<Rightarrow> client_state" where
  "performActiveHealthCheck now stateProbe batteryProbe s =
     (let healthCheckPassed = (if stateProbe then True else batteryProbe) in
      if healthCheckPassed then
        (let s1 = s\<lparr>lastHeartbeat := now\<rparr>
         in if reconnectAttempts s1 > 0
            then s1\<lparr>reconnectAttempts := reconnectAttempts s1 - 1\<rparr> else s1)
      else handleConnectionStale now s)"

text \<open>
  What a fired timer does. \<open>startResult\<close> is the outcome of the \<open>client.initialize()\<close>
  call the task may lead to. The group tasks are run by the roster functions below.
\<close>

definition run_task :: "string option \<Rightarrow> task \<Rightarrow> client_state \<Rightarrow> client_state" where
  "run_task startResult t s =
     (case t of
        ReconnectAfterDisconnect reason hasSessionFiles \<Rightarrow>
          initializeClient (forceNewSession reason hasSessionFiles s) startResult
            (ensureProperPermissions s)
      | ResetAfterCooldown \<Rightarrow>
          handleDisconnection ''RECOVERY_AFTER_RESET'' (s\<lparr>reconnectAttempts := 0\<rparr>)
      | ReconnectAfterStale \<Rightarrow>
          initializeClient (staleConnectionCount s > 5) startResult s
      | RetryInitialization mentionsSession \<Rightarrow>
          initializeClient (reconnectAttempts s > 3 \<or> mentionsSession) startResult s
      | RecoveryAfterError \<Rightarrow> handleDisconnection ''RECOVERY_AFTER_ERROR'' s
      | PartialGroupRefresh \<Rightarrow> s
      | FirstGroupLoad \<Rightarrow> s
      | SecondGroupLoad \<Rightarrow> s
      | HandleAuthFailure \<Rightarrow> setTimeout 10000 AuthRetry s
      | AuthRetry \<Rightarrow> initializeClient False startResult s)"

text \<open>
  \<open>performConnectionCheck\<close>, the body of the monitoring interval, without its roster
  re-check (the roster functions below model that part). \<open>stateResult\<close> is the answer
  of the passive \<open>getState()\<close> under its timeout. The idle threshold is
  \<open>maxIdleTime * 1.5\<close> with \<open>maxIdleTime\<close> fifteen minutes.
\<close>

definition performConnectionCheck ::
  "int \<Rightarrow> js_error + string \<Rightarrow> bool \<Rightarrow> bool \<Rightarrow> client_state \<Rightarrow> client_state" where
  "performConnectionCheck now stateResult stateProbe batteryProbe s =
     (if \<not> client s \<or> \<not> isClientReady s then s
      else if now - lastHeartbeat s > 1350000 then
        performActiveHealthCheck now stateProbe batteryProbe s
      else
        (case stateResult of
           Inl e \<Rightarrow> performActiveHealthCheck now stateProbe batteryProbe s
         | Inr st \<Rightarrow>
             if st = ''CONNECTED'' then
               (let s1 = s\<lparr>lastHeartbeat := now\<rparr>
                in if staleConnectionCount s1 > 0 then s1\<lparr>staleConnectionCount := 0\<rparr> else s1)
             else if st = ''UNPAIRED'' \<or> st = ''UNPAIRED_DEVICE'' then
               handleDisconnection st (s\<lparr>isAuthenticated := False\<rparr>)
             else if st = ''DISCONNECTED'' then
               performActiveHealthCheck now stateProbe batteryProbe s
             else s))"

section \<open>Shutdown\<close>

text \<open>
  \<open>shutdown\<close>: the monitoring intervals are stopped, then \<open>destroy\<close> is attempted under a
  timeout; its failure is caught. No field is written after that.
\<close>

definition shutdown :: "client_state \<Rightarrow> client_state" where
  "shutdown s =
     (let s1 = stopConnectionMonitoring s
      in if client s1 then s1\<lparr>trace := trace s1 @ [DestroyClient]\<rparr> else s1)"

section \<open>The client as a transition system\<close>

text \<open>The \<open>auth_failure\<close> event.\<close>

definition on_auth_failure :: "client_state \<Rightarrow> client_state" where
  "on_auth_failure s = setTimeout 5000 HandleAuthFailure (s\<lparr>isAuthenticated := False, isClientReady := False\<rparr>)"

text \<open>
  Everything that runs a handler of the client: the adapter's events, a tick of the
  connection monitor, a fired timeout and the shutdown request.
\<close>

datatype event =
    Authenticated
  | Ready int "string option"
  | AuthFailure
  | Disconnected string
  | ChangeState int string
  | MessageReceived int
  | MonitorTick int "js_error + string" bool bool
  | TimerFired task "string option"
  | Shutdown

fun step :: "client_state \<Rightarrow> event \<Rightarrow> client_state" where
  "step s Authenticated = on_authenticated s"
| "step s (Ready now info) = on_ready now info s"
| "step s AuthFailure = on_auth_failure s"
| "step s (Disconnected reason) = on_disconnected reason s"
| "step s (ChangeState now st) = on_change_state now st s"
| "step s (MessageReceived now) = on_message_heartbeat now s"
| "step s (MonitorTick now stateResult stateProbe batteryProbe) =
     performConnectionCheck now stateResult stateProbe batteryProbe s"
| "step s (TimerFired t startResult) = run_task startResult t s"
| "step s Shutdown = shutdown s"

definition is_ready_event :: "event \<Rightarrow> bool" where
  "is_ready_event e = (case e of Ready now info \<Rightarrow> True | _ \<Rightarrow> False)"

section \<open>Identity filter and message handling\<close>

text \<open>\<open>isBusinessMessage\<close>, the same body in both client classes.\<close>

definition isBusinessMessage :: "string option \<Rightarrow> raw_message \<Rightarrow> bool" where
  "isBusinessMessage phone message =
     (case (raw_from message, phone) of
        (Some frm, Some number) \<Rightarrow>
          if frm = [] \<or> number = [] then False
          else
            (let isFromBusiness =
                   (case raw_author message of
                      None \<Rightarrow> False
                    | Some author \<Rightarrow> author \<noteq> [] \<and> js_includes author number);
                 isStatus = (raw_isStatus message \<or> js_includes frm ''status@broadcast'')
             in isFromBusiness \<or> isStatus)
      | _ \<Rightarrow> False)"

datatype outcome =
    SkippedBusiness
  | SkippedNonGroup
  | HandlerError
  | Invalid
  | Saved formatted_message

text \<open>
  \<open>handleIncomingMessage\<close> of the persistent client. \<open>saveOk\<close> tells whether
  \<open>dbService.saveMessage\<close> resolves. Before processing, the handler formats the
  message's date for its log, which throws on a missing or out-of-range timestamp; the
  handler's \<open>catch\<close> then drops the message.
\<close>

definition handleIncomingMessage :: "nat \<Rightarrow> bool \<Rightarrow> bool \<Rightarrow> client_state \<Rightarrow> raw_message \<Rightarrow> outcome" where
  "handleIncomingMessage now writeOk saveOk s message =
     (if isBusinessMessage (businessPhoneNumber s) message then SkippedBusiness
      else
        (case raw_from message of
           None \<Rightarrow> HandlerError
         | Some frm \<Rightarrow>
             if \<not> js_includes frm ''@g.us'' then SkippedNonGroup
             else
               (case raw_timestamp message of
                  None \<Rightarrow> HandlerError
                | Some t \<Rightarrow>
                    if \<not> date_valid (t * 1000) then HandlerError
                    else
                      (case processMessage now writeOk message of
                         None \<Rightarrow> Invalid
                       | Some processedMessage \<Rightarrow>
                           if saveOk then Saved processedMessage else HandlerError))))"

section \<open>Roster synchronisation\<close>

text \<open>
  The adapter's \<open>getChats()\<close> is a feed: the \<open>k\<close>-th call resolves to \<open>feed k\<close> or
  rejects. The roster functions return the groups, the index of the next call and the
  waits (in milliseconds) they made between calls. A handler runs to its end before the
  next one starts.
\<close>

type_synonym chats_feed = "nat \<Rightarrow> js_error + chat list"

text \<open>
  \<open>WhatsAppClient.getAllGroups\<close>. Its log line reads \<open>group.id._serialized\<close> of every
  group, so a group without \<open>id\<close> sends it to the \<open>catch\<close> branch like a rejection.
\<close>

function getAllGroups :: "chats_feed \<Rightarrow> nat \<Rightarrow> nat \<Rightarrow> real \<Rightarrow> chat list \<times> nat \<times> real list" where
  "getAllGroups feed k retryCount retryDelay =
     (case (case feed k of
              Inl e \<Rightarrow> None
            | Inr chats \<Rightarrow>
                (let groups = filter chat_isGroup chats
                 in if list_all (\<lambda>g. chat_id g \<noteq> None) groups then Some groups else None)) of
        Some groups \<Rightarrow> (groups, Suc k, [])
      | None \<Rightarrow>
          if retryCount < 3 then
            (let nextRetryDelay = retryDelay * (15 / 10);
                 (groups, k', waits) = getAllGroups feed (Suc k) (Suc retryCount) nextRetryDelay
             in (groups, k', nextRetryDelay # waits))
          else ([], Suc k, []))"
  by pat_completeness auto
termination
  by (relation "measure (\<lambda>(feed, k, retryCount, retryDelay). 3 - retryCount)") auto

declare getAllGroups.simps [simp del]

text \<open>
  \<open>WhatsAppClient.initializeGroups\<close>, with \<open>maxAttempts = 5\<close> and a wait of
  \<open>delayBetweenAttempts = 5000\<close> before each retry. \<open>getAllGroups\<close> catches every
  failure itself, so the \<open>catch\<close> branch here is never entered.
\<close>

function initializeGroups :: "chats_feed \<Rightarrow> nat \<Rightarrow> nat \<Rightarrow> chat list \<times> nat \<times> real list" where
  "initializeGroups feed k attempt =
     (let (groups, k1, waits1) = getAllGroups feed k 0 2000
      in if length groups = 0 \<and> attempt < 5 then
           (let (retryGroups, k2, waits2) = initializeGroups feed k1 (Suc attempt)
            in (retryGroups, k2, waits1 @ 5000 # waits2))
         else (groups, k1, waits1))"
  by pat_completeness auto
termination
  by (relation "measure (\<lambda>(feed, k, attempt). 5 - attempt)") auto

declare initializeGroups.simps [simp del]

text \<open>
  \<open>PersistentWhatsAppClient.initializeGroups\<close>. It throws before fetching when the
  client is not ready; a throw or a rejected fetch is retried while
  \<open>attempt < maxAttempts\<close>, and after the last attempt the periodic refresh is armed if
  it is not armed yet. An empty result of a successful fetch is returned as it is.
\<close>

function persistent_initializeGroups ::
  "chats_feed \<Rightarrow> nat \<Rightarrow> nat \<Rightarrow> nat \<Rightarrow> client_state \<Rightarrow> chat list \<times> nat \<times> client_state" where
  "persistent_initializeGroups feed k attempt maxAttempts s =
     (case (if \<not> isClientReady s \<or> \<not> client s then Inl k
            else (case feed k of Inl e \<Rightarrow> Inl (Suc k) | Inr chats \<Rightarrow> Inr chats)) of
        Inr chats \<Rightarrow>
          (let groups = filter chat_isGroup chats;
               s1 = (if length groups > 0 \<and> length groups < 400
                        \<and> \<not> partialGroupRefreshScheduled s
                     then setTimeout 60000 PartialGroupRefresh (s\<lparr>partialGroupRefreshScheduled := True\<rparr>)
                     else s)
           in (groups, Suc k, s1))
      | Inl k1 \<Rightarrow>
          if attempt < maxAttempts then
            persistent_initializeGroups feed k1 (Suc attempt) maxAttempts s
          else
            ([], k1,
             if \<not> groupRefreshInterval s
             then s\<lparr>groupRefreshInterval := True, trace := trace s @ [SetInterval GroupRefresh]\<rparr>
             else s))"
  by pat_completeness auto
termination
  by (relation "measure (\<lambda>(feed, k, attempt, maxAttempts, s). maxAttempts - attempt)") auto

declare persistent_initializeGroups.simps [simp del]

text \<open>
  One firing of the group refresh interval armed by \<open>startConnectionMonitoring\<close>: when the
  client is ready and the fetch shows no group, initialisation is run again with three
  attempts. A failure is caught; the interval stays armed.
\<close>

definition group_refresh_tick :: "chats_feed \<Rightarrow> nat \<Rightarrow> client_state \<Rightarrow> chat list \<times> nat \<times> client_state" where
  "group_refresh_tick feed k s =
     (if isClientReady s then
        (if \<not> client s then ([], k, s)
         else
           (case feed k of
              Inl e \<Rightarrow> ([], Suc k, s)
            | Inr chats \<Rightarrow>
                if length (filter chat_isGroup chats) = 0
                then persistent_initializeGroups feed (Suc k) 1 3 s
                else (filter chat_isGroup chats, Suc k, s)))
      else ([], k, s))"

text \<open>
  The group timers. The \<open>ready\<close> handler loads the groups after fifteen seconds and,
  when that shows no group, once more thirty seconds later (initialisation never throws,
  so the handler's \<open>catch\<close> branch is not entered). The partial refresh starts an
  initialisation with the default ten attempts and clears its flag before that
  initialisation reaches its first fetch.
\<close>

definition run_group_task ::
  "chats_feed \<Rightarrow> nat \<Rightarrow> task \<Rightarrow> client_state \<Rightarrow> chat list \<times> nat \<times> client_state" where
  "run_group_task feed k t s =
     (case t of
        FirstGroupLoad \<Rightarrow>
          (let (groups, k1, s1) = persistent_initializeGroups feed k 1 5 s
           in if length groups = 0 then (groups, k1, setTimeout 30000 SecondGroupLoad s1)
              else (groups, k1, s1))
      | SecondGroupLoad \<Rightarrow> persistent_initializeGroups feed k 1 5 s
      | PartialGroupRefresh \<Rightarrow>
          persistent_initializeGroups feed k 1 10 (s\<lparr>partialGroupRefreshScheduled := False\<rparr>)
      | _ \<Rightarrow> ([], k, s))"

text \<open>The groups a fetch shows: none when it is rejected.\<close>

definition fetched_groups :: "js_error + chat list \<Rightarrow> chat list" where
  "fetched_groups r = (case r of Inl e \<Rightarrow> [] | Inr chats \<Rightarrow> filter chat_isGroup chats)"

section \<open>Sample inputs\<close>

text \<open>A group chat, a sender and a plain text message from them.\<close>

definition sample_chat :: chat where
  "sample_chat = \<lparr>chat_id = Some ''g1'', chat_name = Some ''Team'', chat_isGroup = True,
                    chat_participants = Some 3\<rparr>"

definition sample_contact :: contact where
  "sample_contact = \<lparr>contact_id = Some ''4915100000@c.us'', pushname = Some ''Alice'',
                       contact_name = None\<rparr>"

definition sample_message :: raw_message where
  "sample_message =
     \<lparr>raw_id = Some ''msg1'',
      raw_from = Some ''g1@g.us'',
      raw_author = Some ''4915100000@c.us'',
      raw_isStatus = False,
      raw_body = Some ''hello'',
      raw_type = Some ''chat'',
      raw_timestamp = Some 1700000000,
      raw_hasQuotedMsg = False,
      raw_getQuotedMessage = Inr None,
      raw_hasMedia = False,
      raw_downloadMedia = Inr None,
      raw_getChat = Inr sample_chat,
      raw_getContact = Inr sample_contact\<rparr>"

text \<open>A status message written by the account itself, delivered through a group.\<close>

definition own_status_message :: raw_message where
  "own_status_message = sample_message\<lparr>raw_isStatus := True\<rparr>"

text \<open>A status message on the broadcast channel; a message whose contact lookup is rejected.\<close>

definition broadcast_status_message :: raw_message where
  "broadcast_status_message =
     sample_message\<lparr>raw_from := Some ''status@broadcast'', raw_isStatus := True\<rparr>"

definition contact_failure_message :: raw_message where
  "contact_failure_message = sample_message\<lparr>raw_getContact := Inl Rejected\<rparr>"

text \<open>A client that has been initialised and has received \<open>ready\<close>; one that has lost its link three times.\<close>

definition running_client :: client_state where
  "running_client =
     on_ready 1000 (Some ''4915100000'') (initializeClient False None (new_client 0 False None))"

definition retrying_client :: client_state where
  "retrying_client =
     foldl step (new_client 0 False None)
       [Disconnected ''NAVIGATION'', Disconnected ''NAVIGATION'', Disconnected ''NAVIGATION'']"

text \<open>Messages for the scenarios of the pipeline.\<close>

definition empty_group_message :: raw_message where
  "empty_group_message = sample_message\<lparr>raw_body := Some []\<rparr>"

definition no_group_id_message :: raw_message where
  "no_group_id_message = sample_message\<lparr>raw_getChat := Inr (sample_chat\<lparr>chat_id := Some []\<rparr>)\<rparr>"



definition image_message :: raw_message where
  "image_message =
     sample_message\<lparr>raw_body := Some [], raw_hasMedia := True,
       raw_downloadMedia := Inr (Some \<lparr>media_bytes = ''AAAA'', mimetype = Some ''image/png'',
                                       filename = Some ''photo.png''\<rparr>)\<rparr>"


text \<open>A feed whose first answer is empty and whose later answers hold twelve groups.\<close>

definition sample_feed :: chats_feed where
  "sample_feed j = (if j = 0 then Inr [] else Inr (replicate 12 sample_chat))"

section \<open>Field lemmas of the handlers\<close>

lemma businessPhoneNumber_setTimeout [simp]:
  "businessPhoneNumber (setTimeout d t s) = businessPhoneNumber s"
  by (simp add: setTimeout_def)

lemma reconnectAttempts_setTimeout [simp]:
  "reconnectAttempts (setTimeout d t s) = reconnectAttempts s"
  by (simp add: setTimeout_def)

lemma maxReconnectAttempts_setTimeout [simp]:
  "maxReconnectAttempts (setTimeout d t s) = maxReconnectAttempts s"
  by (simp add: setTimeout_def)

lemma session_dir_setTimeout [simp]: "session_dir (setTimeout d t s) = session_dir s"
  by (simp add: setTimeout_def)

lemma businessPhoneNumber_stopConnectionMonitoring [simp]:
  "businessPhoneNumber (stopConnectionMonitoring s) = businessPhoneNumber s"
  by (simp add: stopConnectionMonitoring_def Let_def)

lemma reconnectAttempts_stopConnectionMonitoring [simp]:
  "reconnectAttempts (stopConnectionMonitoring s) = reconnectAttempts s"
  by (simp add: stopConnectionMonitoring_def Let_def)

lemma maxReconnectAttempts_stopConnectionMonitoring [simp]:
  "maxReconnectAttempts (stopConnectionMonitoring s) = maxReconnectAttempts s"
  by (simp add: stopConnectionMonitoring_def Let_def)

lemma businessPhoneNumber_handleDisconnection [simp]:
  "businessPhoneNumber (handleDisconnection r s) = businessPhoneNumber s"
  by (simp add: handleDisconnection_def Let_def)

lemma reconnectAttempts_handleDisconnection:
  "reconnectAttempts (handleDisconnection r s) =
     (if reconnectAttempts s \<ge> maxReconnectAttempts s then reconnectAttempts s
      else reconnectAttempts s + 1)"
  by (simp add: handleDisconnection_def Let_def)

lemma timeouts_handleDisconnection:
  "reconnectAttempts s < maxReconnectAttempts s \<Longrightarrow>
   timeouts (handleDisconnection reason s) =
     timeouts s @ [(reconnect_delay (reconnectAttempts s + 1),
                    ReconnectAfterDisconnect reason (checkExistingAuth s))]"
  by (simp add: handleDisconnection_def Let_def setTimeout_def stopConnectionMonitoring_def
      checkExistingAuth_def)

lemma businessPhoneNumber_handleInitializationFailure [simp]:
  "businessPhoneNumber (handleInitializationFailure m s) = businessPhoneNumber s"
  by (simp add: handleInitializationFailure_def Let_def)

lemma reconnectAttempts_handleInitializationFailure:
  "reconnectAttempts (handleInitializationFailure m s) = reconnectAttempts s + 1"
  by (simp add: handleInitializationFailure_def Let_def)

lemma businessPhoneNumber_initializeClient [simp]:
  "businessPhoneNumber (initializeClient f r s) = businessPhoneNumber s"
  by (simp add: initializeClient_def Let_def ensureProperPermissions_def clearSession_def
      destroyExistingClient_def split: option.splits)

lemma reconnectAttempts_initializeClient:
  "reconnectAttempts (initializeClient f r s) =
     (case r of None \<Rightarrow> reconnectAttempts s | Some m \<Rightarrow> reconnectAttempts s + 1)"
  by (simp add: initializeClient_def Let_def ensureProperPermissions_def clearSession_def
      destroyExistingClient_def reconnectAttempts_handleInitializationFailure split: option.splits)



lemma businessPhoneNumber_handleConnectionStale [simp]:
  "businessPhoneNumber (handleConnectionStale now s) = businessPhoneNumber s"
  by (simp add: handleConnectionStale_def Let_def split: option.splits)

lemma reconnectAttempts_handleConnectionStale [simp]:
  "reconnectAttempts (handleConnectionStale now s) = reconnectAttempts s"
  by (simp add: handleConnectionStale_def Let_def split: option.splits)

lemma staleConnectionCount_handleConnectionStale:
  "staleConnectionCount (handleConnectionStale now s) =
     (case lastStaleConnectionTime s of
        None \<Rightarrow> 1
      | Some l \<Rightarrow> if now - l < 300000 then staleConnectionCount s + 1 else 1)"
  by (simp add: handleConnectionStale_def Let_def setTimeout_def split: option.splits)

lemma lastStale_handleConnectionStale:
  "lastStaleConnectionTime (handleConnectionStale now s) = Some now"
  by (simp add: handleConnectionStale_def Let_def setTimeout_def split: option.splits)

lemma timeouts_handleConnectionStale:
  "timeouts (handleConnectionStale now s) =
     timeouts s @ [(stale_delay (staleConnectionCount (handleConnectionStale now s)), ReconnectAfterStale)]"
  by (simp add: handleConnectionStale_def Let_def setTimeout_def split: option.splits)

lemma isClientReady_handleConnectionStale:
  "\<not> isClientReady (handleConnectionStale now s)"
  by (simp add: handleConnectionStale_def Let_def setTimeout_def split: option.splits)

lemma businessPhoneNumber_performActiveHealthCheck [simp]:
  "businessPhoneNumber (performActiveHealthCheck now a b s) = businessPhoneNumber s"
  by (simp add: performActiveHealthCheck_def Let_def)

lemma reconnectAttempts_performActiveHealthCheck:
  "reconnectAttempts (performActiveHealthCheck now a b s) =
     (if a \<or> b then reconnectAttempts s - 1 else reconnectAttempts s)"
  by (simp add: performActiveHealthCheck_def Let_def)

lemma businessPhoneNumber_step:
  "\<not> is_ready_event e \<Longrightarrow> businessPhoneNumber (step s e) = businessPhoneNumber s"
  by (cases e)
     (simp_all add: is_ready_event_def on_authenticated_def on_auth_failure_def on_disconnected_def
        clearSession_def on_change_state_def on_message_heartbeat_def performConnectionCheck_def
        run_task_def shutdown_def Let_def ensureProperPermissions_def
        split: sum.splits task.splits option.splits)

lemma businessPhoneNumber_run:
  "list_all (\<lambda>e. \<not> is_ready_event e) es \<Longrightarrow>
     businessPhoneNumber (foldl step s es) = businessPhoneNumber s"
  by (induction es arbitrary: s) (simp_all add: businessPhoneNumber_step)

lemma reset_only_by_auth_or_ready:
  assumes "reconnectAttempts (step s e) = 0" and "reconnectAttempts s > 1"
    and "maxReconnectAttempts s > 0"
  shows "e = Authenticated \<or> is_ready_event e"
  using assms
  by (cases e)
     (auto simp: is_ready_event_def on_auth_failure_def on_disconnected_def
        clearSession_def on_change_state_def on_message_heartbeat_def performConnectionCheck_def
        run_task_def shutdown_def Let_def ensureProperPermissions_def
        reconnectAttempts_handleDisconnection reconnectAttempts_initializeClient
        reconnectAttempts_performActiveHealthCheck
        split: sum.splits task.splits option.splits if_splits)

lemma reconnect_delay_mono: "n \<le> m \<Longrightarrow> reconnect_delay n \<le> reconnect_delay m"
proof -
  assume "n \<le> m"
  then have "n - 1 \<le> m - 1" by simp
  then have "(12 / 10 :: real) ^ (n - 1) \<le> (12 / 10) ^ (m - 1)"
    by (intro power_increasing) simp_all
  then have "20000 * (12 / 10 :: real) ^ (n - 1) \<le> 20000 * (12 / 10) ^ (m - 1)"
    by simp
  from min.mono [OF this order_refl [of "180000"]] show ?thesis
    by (simp add: reconnect_delay_def)
qed

lemma stale_delay_mono: "n \<le> m \<Longrightarrow> stale_delay n \<le> stale_delay m"
proof -
  assume "n \<le> m"
  then have "n - 1 \<le> m - 1" by simp
  then have "(15 / 10 :: real) ^ (n - 1) \<le> (15 / 10) ^ (m - 1)"
    by (intro power_increasing) simp_all
  then have "10000 * (15 / 10 :: real) ^ (n - 1) \<le> 10000 * (15 / 10) ^ (m - 1)"
    by simp
  from min.mono [OF this order_refl [of "60000"]] show ?thesis
    by (simp add: stale_delay_def)
qed

lemma stale_delay_1: "stale_delay 1 = 10000"
  by (simp add: stale_delay_def)

lemma stale_delay_3: "stale_delay 3 = 22500"
  by (simp add: stale_delay_def power2_eq_square)

lemma shutdown_fields:
  "\<not> connectionMonitor (shutdown s) \<and> \<not> groupRefreshInterval (shutdown s)
   \<and> lockRefreshInterval (shutdown s) = lockRefreshInterval s
   \<and> timeouts (shutdown s) = timeouts s"
  by (simp add: shutdown_def stopConnectionMonitoring_def Let_def)

lemma shutdown_trace:
  "trace (shutdown s) =
     trace s @ (if connectionMonitor s then [ClearInterval ConnectionMonitor] else [])
       @ (if groupRefreshInterval s then [ClearInterval GroupRefresh] else [])
       @ (if client s then [DestroyClient] else [])"
  by (simp add: shutdown_def stopConnectionMonitoring_def Let_def)

lemma running_client_fields:
  "client running_client" "connectionMonitor running_client" "groupRefreshInterval running_client"
  "lockRefreshInterval running_client" "isClientReady running_client"
  "session_dir running_client = Some [''session.lock'']"
  "timeouts running_client = [(15000, FirstGroupLoad)]"
  "trace running_client =
     [InitializeAdapter, SetInterval LockRefresh, SetInterval ConnectionMonitor,
      SetInterval BackupCleanup, SetInterval GroupRefresh, SetTimeout 15000 FirstGroupLoad]"
  "lastStaleConnectionTime running_client = None"
  "reconnectAttempts running_client = 0" "maxReconnectAttempts running_client = 20"
  "useRemoteAuth running_client = False"
  by (simp_all add: running_client_def on_ready_def initializeClient_def new_client_def
      ensureProperPermissions_def destroyExistingClient_def startConnectionMonitoring_def
      stopConnectionMonitoring_def setTimeout_def Let_def)

lemma on_disconnected_fields:
  "reconnectAttempts (on_disconnected r s) =
     (if reconnectAttempts s \<ge> maxReconnectAttempts s then reconnectAttempts s
      else reconnectAttempts s + 1)"
  "maxReconnectAttempts (on_disconnected r s) = maxReconnectAttempts s"
  "\<not> isClientReady (on_disconnected r s)"
  by (simp_all add: on_disconnected_def Let_def clearSession_def reconnectAttempts_handleDisconnection)
     (simp_all add: handleDisconnection_def Let_def setTimeout_def stopConnectionMonitoring_def)

lemma retrying_client_fields:
  "reconnectAttempts retrying_client = 3" "maxReconnectAttempts retrying_client = 20"
  "\<not> isClientReady retrying_client"
  by (simp_all add: retrying_client_def on_disconnected_fields new_client_def)

lemma reconnectAttempts_on_ready: "reconnectAttempts (on_ready now info s) = 0"
  by (simp add: on_ready_def Let_def startConnectionMonitoring_def stopConnectionMonitoring_def
      split: option.splits)

lemma ensureProperPermissions_fields [simp]:
  "isAuthenticated (ensureProperPermissions s) = isAuthenticated s"
  "reconnectAttempts (ensureProperPermissions s) = reconnectAttempts s"
  by (simp_all add: ensureProperPermissions_def split: option.splits)


section \<open>Field lemmas of the pipeline\<close>

lemma processReply_keeps [simp]:
  "md_groupId (processReply now raw md) = md_groupId md"
  "md_groupName (processReply now raw md) = md_groupName md"
  "md_isGroup (processReply now raw md) = md_isGroup md"
  "md_senderName (processReply now raw md) = md_senderName md"
  "md_messageText (processReply now raw md) = md_messageText md"
  "md_timestamp (processReply now raw md) = md_timestamp md"
  "md_linkMetadata (processReply now raw md) = md_linkMetadata md"
  "md_imageAttachmentPath (processReply now raw md) = md_imageAttachmentPath md"
  "md_videoAttachmentPath (processReply now raw md) = md_videoAttachmentPath md"
  "md_audioAttachmentPath (processReply now raw md) = md_audioAttachmentPath md"
  "md_documentAttachmentPath (processReply now raw md) = md_documentAttachmentPath md"
  "md_batchAttachmentPath (processReply now raw md) = md_batchAttachmentPath md"
  by (simp_all add: processReply_def applyReply_def Let_def split: sum.splits option.splits)

lemma processReply_attachmentType [simp]:
  "md_attachmentType md = None \<Longrightarrow> md_attachmentType (processReply now raw md) = None"
  by (simp add: processReply_def applyReply_def Let_def or_null_def truthy_def
      split: sum.splits option.splits)

lemma processLinks_keeps [simp]:
  "md_groupId (processLinks md) = md_groupId md"
  "md_groupName (processLinks md) = md_groupName md"
  "md_isGroup (processLinks md) = md_isGroup md"
  "md_senderName (processLinks md) = md_senderName md"
  "md_timestamp (processLinks md) = md_timestamp md"
  "md_attachmentType (processLinks md) = md_attachmentType md"
  "md_imageAttachmentPath (processLinks md) = md_imageAttachmentPath md"
  "md_videoAttachmentPath (processLinks md) = md_videoAttachmentPath md"
  "md_audioAttachmentPath (processLinks md) = md_audioAttachmentPath md"
  "md_documentAttachmentPath (processLinks md) = md_documentAttachmentPath md"
  "md_batchAttachmentPath (processLinks md) = md_batchAttachmentPath md"
  "md_replyToMessageId (processLinks md) = md_replyToMessageId md"
  "md_replyText (processLinks md) = md_replyText md"
  "md_replyAttachmentType (processLinks md) = md_replyAttachmentType md"
  "md_replyAttachmentPath (processLinks md) = md_replyAttachmentPath md"
  by (simp_all add: processLinks_def Let_def split: option.splits)

lemma processLinks_text:
  "md_messageText md = Some t \<Longrightarrow> \<exists>t'. md_messageText (processLinks md) = Some t'"
  by (simp add: processLinks_def Let_def split: option.splits)

lemma processMedia_keeps [simp]:
  "md_groupId (processMedia now w raw md) = md_groupId md"
  "md_groupName (processMedia now w raw md) = md_groupName md"
  "md_isGroup (processMedia now w raw md) = md_isGroup md"
  "md_senderName (processMedia now w raw md) = md_senderName md"
  "md_messageText (processMedia now w raw md) = md_messageText md"
  "md_timestamp (processMedia now w raw md) = md_timestamp md"
  "md_attachmentType (processMedia now w raw md) = md_attachmentType md"
  "md_linkMetadata (processMedia now w raw md) = md_linkMetadata md"
  "md_batchAttachmentPath (processMedia now w raw md) = md_batchAttachmentPath md"
  "md_replyToMessageId (processMedia now w raw md) = md_replyToMessageId md"
  "md_replyText (processMedia now w raw md) = md_replyText md"
  "md_replyAttachmentType (processMedia now w raw md) = md_replyAttachmentType md"
  "md_replyAttachmentPath (processMedia now w raw md) = md_replyAttachmentPath md"
  by (simp_all add: processMedia_def Let_def split: sum.splits option.splits)

lemma fix_reply_fields_keeps [simp]:
  "md_groupId (fix_reply_fields now md) = md_groupId md"
  "md_groupName (fix_reply_fields now md) = md_groupName md"
  "md_isGroup (fix_reply_fields now md) = md_isGroup md"
  "md_senderName (fix_reply_fields now md) = md_senderName md"
  "md_messageText (fix_reply_fields now md) = md_messageText md"
  "md_timestamp (fix_reply_fields now md) = md_timestamp md"
  "md_attachmentType (fix_reply_fields now md) = md_attachmentType md"
  "md_linkMetadata (fix_reply_fields now md) = md_linkMetadata md"
  "md_imageAttachmentPath (fix_reply_fields now md) = md_imageAttachmentPath md"
  "md_videoAttachmentPath (fix_reply_fields now md) = md_videoAttachmentPath md"
  "md_audioAttachmentPath (fix_reply_fields now md) = md_audioAttachmentPath md"
  "md_documentAttachmentPath (fix_reply_fields now md) = md_documentAttachmentPath md"
  "md_batchAttachmentPath (fix_reply_fields now md) = md_batchAttachmentPath md"
  "md_batchMetadata (fix_reply_fields now md) = md_batchMetadata md"
  "md_replyToMessageId (fix_reply_fields now md) = md_replyToMessageId md"
  by (simp_all add: fix_reply_fields_def Let_def split: option.splits)

lemma unified_type_fix [simp]: "unified_type (fix_reply_fields now md) = unified_type md"
  by (simp add: unified_type_def)

lemma or_default_nonempty: "d \<noteq> [] \<Longrightarrow> or_default a d \<noteq> []"
  by (simp add: or_default_def split: option.splits)

lemma extractMessageData_Inr:
  assumes "extractMessageData now raw = Inr md"
  shows "\<exists>ch co. raw_getChat raw = Inr ch \<and> raw_getContact raw = Inr co
     \<and> chat_id ch = Some (md_groupId md) \<and> md_isGroup md = chat_isGroup ch
     \<and> md_senderName md = or_default (pushname co) (or_default (contact_name co) ''Unknown'')
     \<and> md_senderName md \<noteq> []
     \<and> md_messageText md = raw_body raw
     \<and> md_groupName md = chat_name ch
     \<and> md_timestamp md = date_or_now now (raw_timestamp raw)
     \<and> md_attachmentType md = None \<and> md_linkMetadata md = None
     \<and> md_imageAttachmentPath md = None \<and> md_videoAttachmentPath md = None
     \<and> md_audioAttachmentPath md = None \<and> md_documentAttachmentPath md = None
     \<and> md_batchAttachmentPath md = None \<and> md_batchMetadata md = None
     \<and> md_replyToMessageId md = None \<and> md_replyText md = None
     \<and> md_replyAttachmentType md = None \<and> md_replyAttachmentPath md = None"
  using assms
  by (auto simp: extractMessageData_def or_default_nonempty split: sum.splits option.splits if_splits)

lemma extractMessageData_ok:
  assumes "raw_getChat raw = Inr ch" "raw_getContact raw = Inr co" "chat_id ch = Some gid"
    "chat_isGroup ch \<longrightarrow> chat_participants ch \<noteq> None" "contact_id co \<noteq> None" "raw_id raw \<noteq> None"
  shows "\<exists>md. extractMessageData now raw = Inr md"
  using assms by (auto simp: extractMessageData_def split: sum.splits option.splits)

lemma processMessage_char:
  assumes e: "extractMessageData now raw = Inr md0"
    and ts: "\<forall>t. raw_timestamp raw = Some t \<longrightarrow> t = 0 \<or> date_valid (t * 1000)"
    and b: "raw_body raw = Some body"
  shows "processMessage now w raw =
     (if md_isGroup md0 \<and> md_groupId md0 = [] then None
      else Some (formatMessageData now (processMedia now w raw (processLinks (processReply now raw md0)))))"
proof -
  from extractMessageData_Inr [OF e] b have t0: "md_messageText md0 = Some body"
    and sn: "md_senderName md0 \<noteq> []" by auto
  from processLinks_text [of "processReply now raw md0" body] t0
  obtain t' where t': "md_messageText (processLinks (processReply now raw md0)) = Some t'"
    by auto
  have v: "validateMessage (processMedia now w raw (processLinks (processReply now raw md0))) =
      Inr (\<not> (md_isGroup md0 \<and> md_groupId md0 = []))"
    using sn t' by (simp add: validateMessage_def)
  have tsb: "\<not> (case raw_timestamp raw of None \<Rightarrow> False | Some t \<Rightarrow> t \<noteq> 0 \<and> \<not> date_valid (t * 1000))"
    using ts by (auto split: option.splits)
  show ?thesis
    unfolding processMessage_def processMessage_steps_def
    using tsb e v by (simp add: Let_def)
qed

lemma processMessage_Some:
  assumes "processMessage now w raw = Some r"
  shows "\<exists>md0. extractMessageData now raw = Inr md0
     \<and> r = formatMessageData now (processMedia now w raw (processLinks (processReply now raw md0)))"
  using assms
  by (auto simp: processMessage_def processMessage_steps_def Let_def
      split: sum.splits if_splits bool.splits)

lemma or_null_eq_None: "or_null a \<noteq> None \<longleftrightarrow> truthy a"
  by (simp add: or_null_def truthy_def split: option.splits)

lemma unified_priority:
  assumes "processMessage now w raw = Some r"
  shows "fm_attachmentType r =
     (if fm_imageAttachmentPath r \<noteq> None then Some ''image''
      else if fm_videoAttachmentPath r \<noteq> None then Some ''video''
      else if fm_audioAttachmentPath r \<noteq> None then Some ''audio''
      else if fm_documentAttachmentPath r \<noteq> None then Some ''document''
      else if fm_linkMetadata r \<noteq> None then Some ''link''
      else if fm_batchAttachmentPath r \<noteq> None then Some ''batch''
      else None)"
proof -
  from processMessage_Some [OF assms] obtain md0 where
    e: "extractMessageData now raw = Inr md0" and
    r: "r = formatMessageData now (processMedia now w raw (processLinks (processReply now raw md0)))"
    by blast
  from extractMessageData_Inr [OF e] have a: "md_attachmentType md0 = None" by blast
  show ?thesis
    unfolding r formatMessageData_def Let_def
    by (simp add: a js_or_def truthy_def unified_type_def or_null_def split: option.splits)
qed


lemma synth_path_nonempty [simp]: "synth_path ''VIDEOS'' ext ts \<noteq> []"
  by (simp add: synth_path_def)



lemma sample_wf:
  "raw_getChat sample_message = Inr sample_chat" "raw_getContact sample_message = Inr sample_contact"
  "chat_id sample_chat = Some ''g1''" "chat_isGroup sample_chat \<longrightarrow> chat_participants sample_chat \<noteq> None"
  "contact_id sample_contact \<noteq> None" "raw_id sample_message \<noteq> None"
  "\<forall>t. raw_timestamp sample_message = Some t \<longrightarrow> t = 0 \<or> date_valid (t * 1000)"
  by (simp_all add: sample_message_def sample_chat_def sample_contact_def date_valid_def)


lemma digit_chars:
  "digit_char 0 = CHR ''0''" "digit_char 1 = CHR ''1''" "digit_char 2 = CHR ''2''"
  "digit_char 3 = CHR ''3''" "digit_char 4 = CHR ''4''" "digit_char 5 = CHR ''5''"
  "digit_char 6 = CHR ''6''" "digit_char 7 = CHR ''7''" "digit_char 8 = CHR ''8''"
  "digit_char 9 = CHR ''9''" "digit_char (Suc 0) = CHR ''1''"
  by code_simp+

lemma processMedia_image:
  assumes "raw_hasMedia raw" and "raw_downloadMedia raw = Inr (Some m)" and "media_bytes m \<noteq> []"
    and "mimetype m = Some mt" and "startsWith mt ''image/''"
  shows "md_imageAttachmentPath (processMedia now True raw md) =
       Some (''IMAGES/'' @ show_nat now @ ''_'' @
             or_default (filename m)
               (''attachment_'' @ show_nat now @ ''.'' @ getFileExtensionFromMimeType (Some mt)))"
    and "md_videoAttachmentPath (processMedia now True raw md) = None"
    and "md_audioAttachmentPath (processMedia now True raw md) = None"
    and "md_documentAttachmentPath (processMedia now True raw md) = None"
  using assms
  by (simp_all add: processMedia_def isBatchAttachment_def processAttachment_def
      saveAttachment_def Let_def)










section \<open>Lemmas of the roster functions\<close>

lemma getAllGroups_success:
  assumes "feed k = Inr chats" and "list_all (\<lambda>g. chat_id g \<noteq> None) (filter chat_isGroup chats)"
  shows "getAllGroups feed k retryCount retryDelay = (filter chat_isGroup chats, Suc k, [])"
  using assms by (simp add: getAllGroups.simps [of feed k])

lemma getAllGroups_calls:
  "retryCount \<le> 3 \<Longrightarrow>
   Suc k \<le> fst (snd (getAllGroups feed k retryCount retryDelay))
   \<and> fst (snd (getAllGroups feed k retryCount retryDelay)) \<le> k + (4 - retryCount)"
proof (induction feed k retryCount retryDelay rule: getAllGroups.induct)
  case (1 feed k retryCount retryDelay)
  show ?case
  proof (cases "case feed k of Inl e \<Rightarrow> None
      | Inr chats \<Rightarrow> (let groups = filter chat_isGroup chats
           in if list_all (\<lambda>g. chat_id g \<noteq> None) groups then Some groups else None)")
    case (Some groups)
    then show ?thesis using "1.prems" by (simp add: getAllGroups.simps [of feed k])
  next
    case None
    show ?thesis
    proof (cases "retryCount < 3")
      case True
      then have "Suc retryCount \<le> 3" by simp
      from "1.IH" [OF None True refl this]
      show ?thesis using None True
        by (auto simp add: getAllGroups.simps [of feed k retryCount] Let_def split: prod.splits)
    next
      case False
      then show ?thesis using None "1.prems" by (simp add: getAllGroups.simps [of feed k])
    qed
  qed
qed

lemma getAllGroups_empty:
  "\<forall>j. fetched_groups (feed j) = [] \<Longrightarrow> fst (getAllGroups feed k retryCount retryDelay) = []"
proof (induction feed k retryCount retryDelay rule: getAllGroups.induct)
  case (1 feed k retryCount retryDelay)
  from "1.prems" have z: "fetched_groups (feed k) = []" by blast
  show ?case
  proof (cases "case feed k of Inl e \<Rightarrow> None
      | Inr chats \<Rightarrow> (let groups = filter chat_isGroup chats
           in if list_all (\<lambda>g. chat_id g \<noteq> None) groups then Some groups else None)")
    case (Some groups)
    with z have "groups = []"
      by (auto simp: fetched_groups_def Let_def split: sum.splits if_splits)
    with Some show ?thesis by (simp add: getAllGroups.simps [of feed k])
  next
    case None
    show ?thesis
    proof (cases "retryCount < 3")
      case True
      from "1.IH" [OF None True refl "1.prems"]
      show ?thesis using None True
        by (auto simp add: getAllGroups.simps [of feed k retryCount] Let_def split: prod.splits)
    next
      case False
      then show ?thesis using None by (simp add: getAllGroups.simps [of feed k])
    qed
  qed
qed

lemma initializeGroups_calls:
  "attempt \<le> 5 \<Longrightarrow> fst (snd (initializeGroups feed k attempt)) \<le> k + 4 * (6 - attempt)"
proof (induction feed k attempt rule: initializeGroups.induct)
  case (1 feed k attempt)
  obtain groups k1 waits1 where g: "getAllGroups feed k 0 2000 = (groups, k1, waits1)"
    by (cases "getAllGroups feed k 0 2000") auto
  from getAllGroups_calls [of 0 k feed 2000] g have k1: "k1 \<le> k + 4" by simp
  show ?case
  proof (cases "length groups = 0 \<and> attempt < 5")
    case True
    from "1.IH" [of "(groups, k1, waits1)" groups "(k1, waits1)" k1 waits1] g True
    have "fst (snd (initializeGroups feed k1 (Suc attempt))) \<le> k1 + 4 * (6 - Suc attempt)"
      by simp
    with k1 True g show ?thesis
      by (auto simp add: initializeGroups.simps [of feed k attempt] Let_def split: prod.splits)
  next
    case False
    with k1 g "1.prems" show ?thesis
      by (auto simp add: initializeGroups.simps [of feed k attempt])
  qed
qed

lemma initializeGroups_empty:
  "\<forall>j. fetched_groups (feed j) = [] \<Longrightarrow> fst (initializeGroups feed k attempt) = []"
proof (induction feed k attempt rule: initializeGroups.induct)
  case (1 feed k attempt)
  obtain groups k1 waits1 where g: "getAllGroups feed k 0 2000 = (groups, k1, waits1)"
    by (cases "getAllGroups feed k 0 2000") auto
  from getAllGroups_empty [OF "1.prems", of k 0 2000] g have e: "groups = []" by simp
  show ?case
  proof (cases "attempt < 5")
    case True
    from "1.IH" [of "(groups, k1, waits1)" groups "(k1, waits1)" k1 waits1] g True e "1.prems"
    have "fst (initializeGroups feed k1 (Suc attempt)) = []"
      by simp
    with True g e show ?thesis
      by (auto simp add: initializeGroups.simps [of feed k attempt] Let_def split: prod.splits)
  next
    case False
    with g e show ?thesis
      by (simp add: initializeGroups.simps [of feed k attempt])
  qed
qed

lemma initializeGroups_second_fetch:
  assumes "feed k = Inr chats0" and "filter chat_isGroup chats0 = []"
    and "feed (Suc k) = Inr chats1" and "filter chat_isGroup chats1 \<noteq> []"
    and "list_all (\<lambda>g. chat_id g \<noteq> None) (filter chat_isGroup chats1)"
    and "attempt < 5"
  shows "initializeGroups feed k attempt = (filter chat_isGroup chats1, Suc (Suc k), [5000])"
proof -
  have a: "getAllGroups feed k 0 2000 = ([], Suc k, [])"
    using getAllGroups_success [of feed k chats0 0 2000] assms(1,2) by simp
  have b: "getAllGroups feed (Suc k) 0 2000 = (filter chat_isGroup chats1, Suc (Suc k), [])"
    using getAllGroups_success [of feed "Suc k" chats1 0 2000] assms(3,5) by simp
  have c: "initializeGroups feed (Suc k) (Suc attempt) = (filter chat_isGroup chats1, Suc (Suc k), [])"
    using assms(4) by (simp add: initializeGroups.simps [of feed "Suc k"] b)
  show ?thesis
    using assms(6) by (simp add: initializeGroups.simps [of feed k attempt] a c)
qed

lemma groupRefreshInterval_startConnectionMonitoring:
  "groupRefreshInterval (startConnectionMonitoring s)"
  by (simp add: startConnectionMonitoring_def Let_def)

lemma persistent_initializeGroups_keeps_interval:
  "groupRefreshInterval s \<Longrightarrow>
   groupRefreshInterval (snd (snd (persistent_initializeGroups feed k attempt maxAttempts s)))"
proof (induction feed k attempt maxAttempts s rule: persistent_initializeGroups.induct)
  case (1 feed k attempt maxAttempts s)
  show ?case
  proof (cases "if \<not> isClientReady s \<or> \<not> client s then Inl k
            else (case feed k of Inl e \<Rightarrow> Inl (Suc k) | Inr chats \<Rightarrow> Inr chats)")
    case (Inr chats)
    then show ?thesis using "1.prems"
      by (simp add: persistent_initializeGroups.simps [of feed k attempt maxAttempts s]
          Let_def setTimeout_def)
  next
    case (Inl k1)
    show ?thesis
    proof (cases "attempt < maxAttempts")
      case True
      from "1.IH" [OF Inl True "1.prems"] Inl True show ?thesis
        by (simp add: persistent_initializeGroups.simps [of feed k attempt maxAttempts s])
    next
      case False
      with Inl "1.prems" show ?thesis
        by (simp add: persistent_initializeGroups.simps [of feed k attempt maxAttempts s])
    qed
  qed
qed

lemma persistent_initializeGroups_success:
  assumes "isClientReady s" and "client s" and "feed k = Inr chats"
  shows "fst (persistent_initializeGroups feed k attempt maxAttempts s) = filter chat_isGroup chats"
  using assms
  by (simp add: persistent_initializeGroups.simps [of feed k attempt maxAttempts s] Let_def)

lemma group_refresh_tick_keeps_interval:
  "groupRefreshInterval s \<Longrightarrow> groupRefreshInterval (snd (snd (group_refresh_tick feed k s)))"
  by (simp add: group_refresh_tick_def persistent_initializeGroups_keeps_interval split: sum.splits)

lemma group_refresh_tick_zero:
  assumes "isClientReady s" and "client s" and "feed k = Inr chats0"
    and "filter chat_isGroup chats0 = []"
  shows "group_refresh_tick feed k s = persistent_initializeGroups feed (Suc k) 1 3 s"
  using assms by (simp add: group_refresh_tick_def)

section \<open>Identity filter before the account is known\<close>

text \<open>
  Claim C10, as the code has it. While \<open>businessPhoneNumber\<close> is not recorded,
  \<open>isBusinessMessage\<close> answers \<open>false\<close> for every message, whatever its author and
  status flag, so the handler never skips a message as the account's own. A message from
  a group chat with a valid timestamp then goes on to \<open>processMessage\<close>, and is saved
  when that returns a record; a message whose origin is not a group chat, as on the
  status broadcast channel, is skipped by the next filter. From the constructor on, the
  number stays unrecorded along every run of handlers in which the \<open>ready\<close> event has
  not fired.
\<close>

theorem identity_filter_before_ready:
  assumes "businessPhoneNumber s = None"
  shows "\<not> isBusinessMessage (businessPhoneNumber s) m
     \<and> handleIncomingMessage now writeOk saveOk s m \<noteq> SkippedBusiness
     \<and> (\<forall>frm t. raw_from m = Some frm \<and> js_includes frm ''@g.us''
            \<and> raw_timestamp m = Some t \<and> date_valid (t * 1000) \<longrightarrow>
          handleIncomingMessage now writeOk saveOk s m =
            (case processMessage now writeOk m of
               None \<Rightarrow> Invalid
             | Some p \<Rightarrow> if saveOk then Saved p else HandlerError))
     \<and> (\<forall>frm. raw_from m = Some frm \<and> \<not> js_includes frm ''@g.us'' \<longrightarrow>
          handleIncomingMessage now writeOk saveOk s m = SkippedNonGroup)
     \<and> (list_all (\<lambda>e. \<not> is_ready_event e) es \<longrightarrow>
          businessPhoneNumber (foldl step (new_client t0 remote dir) es) = None)"
proof -
  have b: "\<not> isBusinessMessage (businessPhoneNumber s) m"
    using assms by (simp add: isBusinessMessage_def split: option.splits)
  have r: "list_all (\<lambda>e. \<not> is_ready_event e) es \<longrightarrow>
      businessPhoneNumber (foldl step (new_client t0 remote dir) es) = None"
    by (simp add: businessPhoneNumber_run new_client_def)
  show ?thesis
    using b r by (auto simp: handleIncomingMessage_def split: option.splits)
qed

theorem identity_filter_before_ready_witness:
  "businessPhoneNumber (foldl step (new_client 0 False None) [Authenticated, MessageReceived 5]) = None
   \<and> \<not> isBusinessMessage
         (businessPhoneNumber (foldl step (new_client 0 False None) [Authenticated, MessageReceived 5]))
         own_status_message
   \<and> raw_isStatus own_status_message
   \<and> (\<exists>p. handleIncomingMessage 7 True True
         (foldl step (new_client 0 False None) [Authenticated, MessageReceived 5])
         own_status_message = Saved p)"
proof -
  let ?s = "foldl step (new_client 0 False None) [Authenticated, MessageReceived 5]"
  have h: "businessPhoneNumber ?s = None"
    by (simp add: new_client_def on_authenticated_def on_message_heartbeat_def)
  have g: "raw_from own_status_message = Some ''g1@g.us'' \<and> js_includes ''g1@g.us'' ''@g.us''
      \<and> raw_timestamp own_status_message = Some 1700000000 \<and> date_valid (1700000000 * 1000)"
    by (simp add: own_status_message_def sample_message_def startsWith_def date_valid_def)
  have st: "raw_isStatus own_status_message"
    by (simp add: own_status_message_def)
  have w: "raw_getChat own_status_message = Inr sample_chat"
      "raw_getContact own_status_message = Inr sample_contact"
      "chat_id sample_chat = Some ''g1''"
      "chat_isGroup sample_chat \<longrightarrow> chat_participants sample_chat \<noteq> None"
      "contact_id sample_contact \<noteq> None" "raw_id own_status_message \<noteq> None"
    using sample_wf by (simp_all add: own_status_message_def)
  have b: "raw_body own_status_message = Some ''hello''"
    by (simp add: own_status_message_def sample_message_def)
  have ts: "\<forall>t. raw_timestamp own_status_message = Some t \<longrightarrow> t = 0 \<or> date_valid (t * 1000)"
    using sample_wf by (simp add: own_status_message_def)
  from extractMessageData_ok [OF w] obtain md0 where
    e: "extractMessageData 7 own_status_message = Inr md0" by blast
  from extractMessageData_Inr [OF e] w(1,3) have "md_groupId md0 = ''g1''" by auto
  with processMessage_char [OF e ts b, of True]
  obtain p where pm: "processMessage 7 True own_status_message = Some p" by auto
  note t = identity_filter_before_ready [OF h, of own_status_message 7 True True "[]" 0 False None]
  from t have nb: "\<not> isBusinessMessage (businessPhoneNumber ?s) own_status_message"
    by blast
  from t g have "handleIncomingMessage 7 True True ?s own_status_message =
      (case processMessage 7 True own_status_message of
         None \<Rightarrow> Invalid | Some p \<Rightarrow> if True then Saved p else HandlerError)"
    by blast
  with pm have "handleIncomingMessage 7 True True ?s own_status_message = Saved p"
    by simp
  with h nb st show ?thesis by blast
qed

text \<open>
  The claim as stated fails for the broadcast channel: with no number recorded, a status
  message from \<open>status@broadcast\<close> passes the identity filter and is then skipped as a
  non-group message, not processed.
\<close>

theorem broadcast_status_skipped_counterexample:
  "businessPhoneNumber (new_client 0 False None) = None
   \<and> raw_isStatus broadcast_status_message
   \<and> \<not> isBusinessMessage (businessPhoneNumber (new_client 0 False None)) broadcast_status_message
   \<and> handleIncomingMessage 7 True True (new_client 0 False None) broadcast_status_message
       = SkippedNonGroup"
  by (simp add: new_client_def broadcast_status_message_def handleIncomingMessage_def
      isBusinessMessage_def startsWith_def)

section \<open>Validation and totality of the pipeline\<close>

text \<open>
  Claim C1, as the code has it. \<open>processMessage\<close> is a total function into an
  optional record: every exception is caught and gives \<open>null\<close>. For an event whose chat
  and contact lookups resolve, whose identifiers are present, whose body is a string and
  whose timestamp is absent or a valid date, the result is \<open>null\<close> exactly when the
  event is group-scoped and its group id is empty, whatever the sender name (extraction
  never leaves the sender name empty, it falls back to \<open>Unknown\<close>). With a non-empty
  group id a record is returned, also for a message with no text, no attachment and no
  reply. \<open>validateMessage\<close> on its own rejects exactly a group-scoped message without
  group id and a message without sender name.
\<close>

theorem processMessage_null_iff_group_without_id:
  assumes "raw_getChat raw = Inr ch" and "raw_getContact raw = Inr co"
    and "chat_id ch = Some gid" and "chat_isGroup ch \<longrightarrow> chat_participants ch \<noteq> None"
    and "contact_id co \<noteq> None" and "raw_id raw \<noteq> None"
    and "raw_body raw = Some body"
    and "\<forall>t. raw_timestamp raw = Some t \<longrightarrow> t = 0 \<or> date_valid (t * 1000)"
  shows "(processMessage now w raw = None \<longleftrightarrow> chat_isGroup ch \<and> gid = [])
     \<and> (gid \<noteq> [] \<longrightarrow>
          (\<exists>r. processMessage now w raw = Some r \<and> fm_groupId r = gid
             \<and> fm_senderName r = or_default (pushname co) (or_default (contact_name co) ''Unknown'')
             \<and> fm_senderName r \<noteq> []))
     \<and> (validateMessage md = Inr False \<longleftrightarrow>
          (md_isGroup md \<and> md_groupId md = []) \<or> md_senderName md = [])"
proof -
  from extractMessageData_ok [OF assms(1-6)] obtain md0 where
    e: "extractMessageData now raw = Inr md0" by blast
  from extractMessageData_Inr [OF e] assms(1-3) have
    f: "md_groupId md0 = gid" "md_isGroup md0 = chat_isGroup ch"
       "md_senderName md0 = or_default (pushname co) (or_default (contact_name co) ''Unknown'')"
       "md_senderName md0 \<noteq> []"
    by auto
  note c = processMessage_char [OF e assms(8) assms(7), of w]
  have v: "validateMessage md = Inr False \<longleftrightarrow>
      (md_isGroup md \<and> md_groupId md = []) \<or> md_senderName md = []"
    by (simp add: validateMessage_def split: option.splits)
  have n: "processMessage now w raw = None \<longleftrightarrow> chat_isGroup ch \<and> gid = []"
    using c f by simp
  have s: "gid \<noteq> [] \<longrightarrow>
      (\<exists>r. processMessage now w raw = Some r \<and> fm_groupId r = gid
         \<and> fm_senderName r = or_default (pushname co) (or_default (contact_name co) ''Unknown'')
         \<and> fm_senderName r \<noteq> [])"
    using c f by (simp add: formatMessageData_def Let_def)
  from n s v show ?thesis by blast
qed

theorem processMessage_null_iff_group_without_id_witness:
  "raw_getChat empty_group_message = Inr sample_chat
   \<and> chat_id sample_chat = Some ''g1''
   \<and> raw_body empty_group_message = Some []
   \<and> \<not> raw_hasMedia empty_group_message \<and> \<not> raw_hasQuotedMsg empty_group_message
   \<and> processMessage 7 True empty_group_message \<noteq> None
   \<and> (\<exists>r. processMessage 7 True empty_group_message = Some r \<and> fm_groupId r = ''g1''
          \<and> fm_senderName r = ''Alice'')"
proof -
  have h: "raw_getChat empty_group_message = Inr sample_chat"
      "raw_getContact empty_group_message = Inr sample_contact"
      "chat_id sample_chat = Some ''g1''"
      "chat_isGroup sample_chat \<longrightarrow> chat_participants sample_chat \<noteq> None"
      "contact_id sample_contact \<noteq> None" "raw_id empty_group_message \<noteq> None"
      "raw_body empty_group_message = Some []"
      "\<forall>t. raw_timestamp empty_group_message = Some t \<longrightarrow> t = 0 \<or> date_valid (t * 1000)"
    using sample_wf by (simp_all add: empty_group_message_def)
  have g: "\<not> raw_hasMedia empty_group_message \<and> \<not> raw_hasQuotedMsg empty_group_message"
    by (simp add: empty_group_message_def sample_message_def)
  have a: "or_default (pushname sample_contact) (or_default (contact_name sample_contact) ''Unknown'') = ''Alice''"
    by (simp add: or_default_def sample_contact_def)
  from processMessage_null_iff_group_without_id [OF h, of 7 True] a h(1,3,7) g
  show ?thesis by auto
qed

text \<open>
  The claim as stated fails: a group-scoped event without group id is rejected although
  its sender has a name, and an event of a group with an id is rejected when the lookup
  of its contact is rejected.
\<close>

theorem null_despite_sender_name_counterexample:
  "processMessage 7 True no_group_id_message = None
   \<and> raw_getContact no_group_id_message = Inr sample_contact
   \<and> pushname sample_contact = Some ''Alice''
   \<and> processMessage 7 True contact_failure_message = None
   \<and> raw_getChat contact_failure_message = Inr sample_chat
   \<and> chat_id sample_chat = Some ''g1''"
proof -
  have cf: "processMessage 7 True contact_failure_message = None
      \<and> raw_getChat contact_failure_message = Inr sample_chat
      \<and> chat_id sample_chat = Some ''g1''"
    by (simp add: processMessage_def processMessage_steps_def extractMessageData_def
        contact_failure_message_def sample_message_def sample_chat_def date_valid_def)
  let ?ch = "sample_chat\<lparr>chat_id := Some []\<rparr>"
  have h: "raw_getChat no_group_id_message = Inr ?ch"
      "raw_getContact no_group_id_message = Inr sample_contact"
      "chat_id ?ch = Some []"
      "chat_isGroup ?ch \<longrightarrow> chat_participants ?ch \<noteq> None"
      "contact_id sample_contact \<noteq> None" "raw_id no_group_id_message \<noteq> None"
    using sample_wf by (simp_all add: no_group_id_message_def sample_chat_def)
  have b: "raw_body no_group_id_message = Some ''hello''"
    by (simp add: no_group_id_message_def sample_message_def)
  have ts: "\<forall>t. raw_timestamp no_group_id_message = Some t \<longrightarrow> t = 0 \<or> date_valid (t * 1000)"
    using sample_wf by (simp add: no_group_id_message_def)
  from extractMessageData_ok [OF h] obtain md0 where
    e: "extractMessageData 7 no_group_id_message = Inr md0" by blast
  from extractMessageData_Inr [OF e] h(1,3) have
    f: "md_groupId md0 = []" "md_isGroup md0" by (auto simp: sample_chat_def)
  from processMessage_char [OF e ts b, of True] f
  have "processMessage 7 True no_group_id_message = None" by simp
  then show ?thesis
    using h(2) cf by (simp add: sample_contact_def)
qed


section \<open>Replies to a video\<close>



section \<open>Link extraction\<close>



section \<open>Unified attachment type\<close>

text \<open>
  Claim C6. In every record the pipeline returns, the unified attachment type is derived
  from the per-kind fields of that record by the priority image, video, audio, document,
  link, batch. In particular an event carrying media of an \<open>image/*\<close> MIME type, stored
  successfully, yields a record whose image path is the stored locator, whose other
  per-kind paths are empty, and whose unified attachment type is \<open>image\<close>.
\<close>

theorem unified_attachment_type_priority:
  assumes "raw_getChat raw = Inr ch" and "raw_getContact raw = Inr co"
    and "chat_id ch = Some gid" and "chat_isGroup ch \<longrightarrow> chat_participants ch \<noteq> None"
    and "contact_id co \<noteq> None" and "raw_id raw \<noteq> None"
    and "raw_body raw = Some body"
    and "\<forall>t. raw_timestamp raw = Some t \<longrightarrow> t = 0 \<or> date_valid (t * 1000)"
    and "gid \<noteq> []"
    and "raw_hasMedia raw" and "raw_downloadMedia raw = Inr (Some m)" and "media_bytes m \<noteq> []"
    and "mimetype m = Some mt" and "startsWith mt ''image/''"
  shows "(\<forall>r'. processMessage now' w' raw' = Some r' \<longrightarrow>
            fm_attachmentType r' =
              (if fm_imageAttachmentPath r' \<noteq> None then Some ''image''
               else if fm_videoAttachmentPath r' \<noteq> None then Some ''video''
               else if fm_audioAttachmentPath r' \<noteq> None then Some ''audio''
               else if fm_documentAttachmentPath r' \<noteq> None then Some ''document''
               else if fm_linkMetadata r' \<noteq> None then Some ''link''
               else if fm_batchAttachmentPath r' \<noteq> None then Some ''batch''
               else None))
     \<and> (\<exists>r. processMessage now True raw = Some r
            \<and> fm_imageAttachmentPath r =
                 Some (''IMAGES/'' @ show_nat now @ ''_'' @
                       or_default (filename m)
                         (''attachment_'' @ show_nat now @ ''.'' @ getFileExtensionFromMimeType (Some mt)))
            \<and> fm_videoAttachmentPath r = None \<and> fm_audioAttachmentPath r = None
            \<and> fm_documentAttachmentPath r = None
            \<and> fm_attachmentType r = Some ''image'')"
proof -
  from extractMessageData_ok [OF assms(1-6)] obtain md0 where
    e: "extractMessageData now raw = Inr md0" by blast
  from extractMessageData_Inr [OF e] assms(1-3) have f: "md_groupId md0 = gid" by auto
  let ?md3 = "processMedia now True raw (processLinks (processReply now raw md0))"
  from processMessage_char [OF e assms(8) assms(7), of True] f assms(9)
  have c: "processMessage now True raw = Some (formatMessageData now ?md3)" by simp
  note i = processMedia_image [OF assms(10-14), of now "processLinks (processReply now raw md0)"]
  have p: "fm_imageAttachmentPath (formatMessageData now ?md3) =
       Some (''IMAGES/'' @ show_nat now @ ''_'' @
             or_default (filename m)
               (''attachment_'' @ show_nat now @ ''.'' @ getFileExtensionFromMimeType (Some mt)))"
    "fm_videoAttachmentPath (formatMessageData now ?md3) = None"
    "fm_audioAttachmentPath (formatMessageData now ?md3) = None"
    "fm_documentAttachmentPath (formatMessageData now ?md3) = None"
    by (simp_all add: formatMessageData_def Let_def i or_null_def truthy_def)
  from unified_priority [OF c] p
  have u: "fm_attachmentType (formatMessageData now ?md3) = Some ''image''" by simp
  have g: "\<forall>r'. processMessage now' w' raw' = Some r' \<longrightarrow>
            fm_attachmentType r' =
              (if fm_imageAttachmentPath r' \<noteq> None then Some ''image''
               else if fm_videoAttachmentPath r' \<noteq> None then Some ''video''
               else if fm_audioAttachmentPath r' \<noteq> None then Some ''audio''
               else if fm_documentAttachmentPath r' \<noteq> None then Some ''document''
               else if fm_linkMetadata r' \<noteq> None then Some ''link''
               else if fm_batchAttachmentPath r' \<noteq> None then Some ''batch''
               else None)"
    using unified_priority by blast
  from c p u g show ?thesis by blast
qed

theorem unified_attachment_type_priority_witness:
  "raw_hasMedia image_message
   \<and> (\<exists>r. processMessage 7 True image_message = Some r
         \<and> fm_imageAttachmentPath r = Some ''IMAGES/7_photo.png''
         \<and> fm_attachmentType r = Some ''image'')"
proof -
  let ?m = "\<lparr>media_bytes = ''AAAA'', mimetype = Some ''image/png'', filename = Some ''photo.png''\<rparr>"
  have w: "raw_getChat image_message = Inr sample_chat"
      "raw_getContact image_message = Inr sample_contact"
      "chat_id sample_chat = Some ''g1''"
      "chat_isGroup sample_chat \<longrightarrow> chat_participants sample_chat \<noteq> None"
      "contact_id sample_contact \<noteq> None" "raw_id image_message \<noteq> None"
      "raw_body image_message = Some []"
      "\<forall>t. raw_timestamp image_message = Some t \<longrightarrow> t = 0 \<or> date_valid (t * 1000)"
      "''g1'' \<noteq> []"
    using sample_wf by (simp_all add: image_message_def)
  have i: "raw_hasMedia image_message" "raw_downloadMedia image_message = Inr (Some ?m)"
      "media_bytes ?m \<noteq> []" "mimetype ?m = Some ''image/png''" "startsWith ''image/png'' ''image/''"
    by (simp_all add: image_message_def startsWith_def)
  have n: "show_nat 7 = ''7''"
    by (simp add: show_nat.simps digit_chars)
  note t = unified_attachment_type_priority
      [OF w i, where now = 7 and now' = 7 and w' = True and raw' = image_message]
  from t n have "\<exists>r. processMessage 7 True image_message = Some r
         \<and> fm_imageAttachmentPath r = Some ''IMAGES/7_photo.png''
         \<and> fm_attachmentType r = Some ''image''"
    by (auto simp: or_default_def)
  with i(1) show ?thesis by blast
qed

section \<open>Reconnection delay and attempt counter\<close>

text \<open>
  Claim C2, as the code has it. The delay armed by \<open>handleDisconnection\<close> is
  \<open>min(20000 * 1.2^(attempt - 1), 180000)\<close> of the incremented attempt count, with no
  jitter term, and it is monotonically non-decreasing in the attempt count. A retry never
  lowers the counter: \<open>handleDisconnection\<close> (below the maximum) and
  \<open>handleInitializationFailure\<close> add one. The counter is set to 0 by the
  \<open>authenticated\<close> event as well as by the \<open>ready\<close> event; a passed active health check
  lowers it by one; and no other handler takes it from a value above 1 to 0.
\<close>

theorem reconnect_delay_and_counter:
  assumes "n \<le> m" and "reconnectAttempts s < maxReconnectAttempts s"
  shows "reconnect_delay n = min (20000 * (12 / 10) ^ (n - 1)) 180000
     \<and> reconnect_delay n \<le> reconnect_delay m
     \<and> timeouts (handleDisconnection reason s) =
         timeouts s @ [(reconnect_delay (reconnectAttempts s + 1),
                        ReconnectAfterDisconnect reason (checkExistingAuth s))]
     \<and> reconnectAttempts (handleDisconnection reason s) = reconnectAttempts s + 1
     \<and> reconnectAttempts (handleInitializationFailure message s') = reconnectAttempts s' + 1
     \<and> reconnectAttempts (on_authenticated s') = 0
     \<and> reconnectAttempts (on_ready now info s') = 0
     \<and> reconnectAttempts (performActiveHealthCheck now True probe s') = reconnectAttempts s' - 1
     \<and> (reconnectAttempts (step s' e) = 0 \<and> reconnectAttempts s' > 1 \<and> maxReconnectAttempts s' > 0
          \<longrightarrow> e = Authenticated \<or> is_ready_event e)"
proof -
  have a: "reconnectAttempts (handleDisconnection reason s) = reconnectAttempts s + 1"
    using assms(2) by (simp add: reconnectAttempts_handleDisconnection)
  have b: "reconnectAttempts (on_authenticated s') = 0"
    by (simp add: on_authenticated_def)
  have c: "reconnectAttempts (performActiveHealthCheck now True probe s') = reconnectAttempts s' - 1"
    by (simp add: reconnectAttempts_performActiveHealthCheck)
  have d: "reconnect_delay n = min (20000 * (12 / 10) ^ (n - 1)) 180000"
    by (simp add: reconnect_delay_def)
  from d reconnect_delay_mono [OF assms(1)] timeouts_handleDisconnection [OF assms(2)] a b c
    reconnectAttempts_handleInitializationFailure reconnectAttempts_on_ready
    reset_only_by_auth_or_ready
  show ?thesis by blast
qed

theorem reconnect_delay_and_counter_witness:
  "reconnect_delay 1 = 20000 \<and> reconnect_delay 2 = 24000 \<and> reconnect_delay 1 \<le> reconnect_delay 2
   \<and> timeouts (handleDisconnection ''NAVIGATION'' running_client) =
        [(15000, FirstGroupLoad), (20000, ReconnectAfterDisconnect ''NAVIGATION'' True)]
   \<and> reconnectAttempts (handleDisconnection ''NAVIGATION'' running_client) = 1"
proof -
  have h: "(1::nat) \<le> 2" "reconnectAttempts running_client < maxReconnectAttempts running_client"
    by (simp_all add: running_client_fields)
  have v: "reconnect_delay 1 = 20000" "reconnect_delay 2 = 24000"
    by (simp_all add: reconnect_delay_def)
  have ca: "checkExistingAuth running_client"
    by (simp add: checkExistingAuth_def running_client_fields startsWith_def)
  from reconnect_delay_and_counter [OF h, of "''NAVIGATION''"] v ca
  show ?thesis by (simp add: running_client_fields)
qed

text \<open>
  The claim as stated fails: after three lost links the \<open>authenticated\<close> event sets the
  counter to 0 while the client is not ready.
\<close>

theorem counter_reset_by_authenticated_counterexample:
  "reconnectAttempts retrying_client = 3
   \<and> reconnectAttempts (step retrying_client Authenticated) = 0
   \<and> \<not> isClientReady (step retrying_client Authenticated)"
  by (simp add: retrying_client_fields on_authenticated_def)

section \<open>Forcing a fresh session\<close>




section \<open>Stale connections\<close>

text \<open>
  Claim C7. When the state probe and the battery probe both fail, the active health check
  treats the connection as stale: the client is marked not ready and a reconnect is armed
  with delay \<open>min(10000 * 1.5^(count - 1), 60000)\<close>, non-decreasing in the stale counter,
  which counts the stale episodes that follow one another within five minutes. An
  isolated episode gives 10000 ms. Of three consecutive episodes, each within five
  minutes of the previous one, the third arms a delay of at least 22500 ms, strictly more
  than the isolated one. Between the episodes any handler may run that leaves the stale
  counter and the time of the last episode alone.
\<close>

theorem stale_reconnect_delay_escalates:
  assumes "t2 - t1 < 300000" and "t3 - t2 < 300000"
    and "staleConnectionCount s1 = staleConnectionCount (handleConnectionStale t1 s0)"
    and "lastStaleConnectionTime s1 = lastStaleConnectionTime (handleConnectionStale t1 s0)"
    and "staleConnectionCount s2 = staleConnectionCount (handleConnectionStale t2 s1)"
    and "lastStaleConnectionTime s2 = lastStaleConnectionTime (handleConnectionStale t2 s1)"
  shows "performActiveHealthCheck now False False s = handleConnectionStale now s
     \<and> \<not> isClientReady (handleConnectionStale now s)
     \<and> timeouts (handleConnectionStale now s) =
          timeouts s @ [(stale_delay (staleConnectionCount (handleConnectionStale now s)),
                         ReconnectAfterStale)]
     \<and> (c \<le> c' \<longrightarrow> stale_delay c \<le> stale_delay c')
     \<and> (lastStaleConnectionTime s = None
          \<or> (\<exists>l. lastStaleConnectionTime s = Some l \<and> \<not> now - l < 300000)
          \<longrightarrow> stale_delay (staleConnectionCount (handleConnectionStale now s)) = 10000)
     \<and> staleConnectionCount (handleConnectionStale t3 s2) \<ge> 3
     \<and> stale_delay (staleConnectionCount (handleConnectionStale t3 s2)) \<ge> 22500
     \<and> stale_delay (staleConnectionCount (handleConnectionStale t3 s2)) > 10000"
proof -
  have a: "performActiveHealthCheck now False False s = handleConnectionStale now s"
    by (simp add: performActiveHealthCheck_def)
  have i: "lastStaleConnectionTime s = None
          \<or> (\<exists>l. lastStaleConnectionTime s = Some l \<and> \<not> now - l < 300000)
          \<longrightarrow> stale_delay (staleConnectionCount (handleConnectionStale now s)) = 10000"
    using stale_delay_1 by (auto simp: staleConnectionCount_handleConnectionStale)
  have c1: "staleConnectionCount s1 \<ge> 1"
    by (simp add: assms(3) staleConnectionCount_handleConnectionStale split: option.splits)
  have l1: "lastStaleConnectionTime s1 = Some t1"
    by (simp add: assms(4) lastStale_handleConnectionStale)
  have c2: "staleConnectionCount s2 \<ge> 2"
    using c1 assms(1) by (simp add: assms(5) staleConnectionCount_handleConnectionStale l1)
  have l2: "lastStaleConnectionTime s2 = Some t2"
    by (simp add: assms(6) lastStale_handleConnectionStale)
  have c3: "staleConnectionCount (handleConnectionStale t3 s2) \<ge> 3"
    using c2 assms(2) by (simp add: staleConnectionCount_handleConnectionStale l2)
  from stale_delay_mono [OF c3] have d: "stale_delay (staleConnectionCount (handleConnectionStale t3 s2)) \<ge> 22500"
    by (simp add: stale_delay_3)
  then have e: "stale_delay (staleConnectionCount (handleConnectionStale t3 s2)) > 10000"
    by simp
  from a i c3 d e isClientReady_handleConnectionStale timeouts_handleConnectionStale stale_delay_mono
  show ?thesis by blast
qed

theorem stale_reconnect_delay_escalates_witness:
  "(200000::int) - 100000 < 300000 \<and> (300000::int) - 200000 < 300000
   \<and> lastStaleConnectionTime running_client = None
   \<and> stale_delay (staleConnectionCount (handleConnectionStale 100000 running_client)) = 10000
   \<and> stale_delay (staleConnectionCount
        (handleConnectionStale 300000 (handleConnectionStale 200000
           (handleConnectionStale 100000 running_client)))) > 10000"
proof -
  have h: "(200000::int) - 100000 < 300000" "(300000::int) - 200000 < 300000" by simp_all
  note t = stale_reconnect_delay_escalates [OF h refl refl refl refl,
      where s0 = running_client and s = running_client and now = 100000]
  from t h running_client_fields(9) show ?thesis by blast
qed


section \<open>Timers at shutdown\<close>

text \<open>
  Claim C8, as the code has it. \<open>shutdown\<close> clears the connection monitor and the group
  refresh interval before it attempts to destroy the adapter. It leaves the lock refresh
  interval armed and the pending timeouts, a scheduled reconnect among them, in place.
\<close>

theorem shutdown_stops_monitoring_only:
  "\<not> connectionMonitor (shutdown s) \<and> \<not> groupRefreshInterval (shutdown s)
   \<and> lockRefreshInterval (shutdown s) = lockRefreshInterval s
   \<and> timeouts (shutdown s) = timeouts s
   \<and> trace (shutdown s) =
       trace s @ (if connectionMonitor s then [ClearInterval ConnectionMonitor] else [])
         @ (if groupRefreshInterval s then [ClearInterval GroupRefresh] else [])
         @ (if client s then [DestroyClient] else [])"
  using shutdown_fields [of s] shutdown_trace [of s] by blast

theorem shutdown_stops_monitoring_only_witness:
  "\<not> connectionMonitor (shutdown running_client) \<and> \<not> groupRefreshInterval (shutdown running_client)
   \<and> trace (shutdown running_client) =
       trace running_client @ [ClearInterval ConnectionMonitor, ClearInterval GroupRefresh, DestroyClient]"
  using shutdown_stops_monitoring_only [of running_client]
  by (simp add: running_client_fields)

text \<open>
  The claim as stated fails: after the shutdown of a running client the lock refresh is
  still armed and was never cleared, and a reconnect scheduled by a lost link is still
  pending.
\<close>

theorem shutdown_keeps_lock_refresh_counterexample:
  "lockRefreshInterval (shutdown running_client)
   \<and> ClearInterval LockRefresh \<notin> set (trace (shutdown running_client))
   \<and> timeouts (shutdown (on_disconnected ''NAVIGATION'' running_client)) =
        [(15000, FirstGroupLoad), (20000, ReconnectAfterDisconnect ''NAVIGATION'' True)]"
proof -
  have a: "lockRefreshInterval (shutdown running_client)"
    by (simp add: shutdown_fields running_client_fields)
  have b: "ClearInterval LockRefresh \<notin> set (trace (shutdown running_client))"
    by (simp add: shutdown_trace running_client_fields)
  have ca: "checkExistingAuth (running_client\<lparr>isClientReady := False\<rparr>)"
    by (simp add: checkExistingAuth_def running_client_fields startsWith_def)
  have d: "reconnect_delay 1 = 20000" by (simp add: reconnect_delay_def)
  have "timeouts (on_disconnected ''NAVIGATION'' running_client) =
        [(15000, FirstGroupLoad), (20000, ReconnectAfterDisconnect ''NAVIGATION'' True)]"
    using ca d
    by (simp add: on_disconnected_def isLogout_def startsWith_def timeouts_handleDisconnection
        running_client_fields)
  then show ?thesis using a b by (simp add: shutdown_fields)
qed

section \<open>Roster retries\<close>

text \<open>
  Claim C9. When the first fetch of \<open>WhatsAppClient.initializeGroups\<close> shows no group,
  the fetch is retried after a wait of 5000 ms, for at most five attempts (at most twenty
  calls of the adapter, counting the retries of rejected calls); if every fetch shows no
  group the result is the empty list, not a failure. The persistent client loads the
  groups after \<open>ready\<close> and, when that shows none, once more thirty seconds later; its
  monitoring arms a group refresh interval that stays armed across its firings, and a
  firing that finds no group runs the initialisation again. Consequently, when the first
  call shows 0 groups and the retried call shows 12, the groups returned are those 12.
\<close>

theorem roster_retry_until_groups_found:
  assumes "feed k = Inr chats0" and "filter chat_isGroup chats0 = []"
    and "feed (Suc k) = Inr chats1" and "length (filter chat_isGroup chats1) = 12"
    and "list_all (\<lambda>g. chat_id g \<noteq> None) (filter chat_isGroup chats1)"
  shows "initializeGroups feed k 1 = (filter chat_isGroup chats1, k + 2, [5000])
     \<and> length (fst (initializeGroups feed k 1)) = 12
     \<and> fst (snd (initializeGroups feed' k' 1)) \<le> k' + 20
     \<and> ((\<forall>j. fetched_groups (feed' j) = []) \<longrightarrow> fst (initializeGroups feed' k' 1) = [])
     \<and> groupRefreshInterval (startConnectionMonitoring s)
     \<and> (groupRefreshInterval s \<longrightarrow>
          groupRefreshInterval (snd (snd (group_refresh_tick feed' k' s))))
     \<and> (isClientReady s \<and> client s \<longrightarrow>
          fst (group_refresh_tick feed k s) = filter chat_isGroup chats1)
     \<and> (isClientReady s \<and> client s \<longrightarrow>
          run_group_task feed k FirstGroupLoad s = ([], Suc k, setTimeout 30000 SecondGroupLoad s)
          \<and> fst (run_group_task feed (Suc k) SecondGroupLoad (setTimeout 30000 SecondGroupLoad s))
              = filter chat_isGroup chats1)"
proof -
  have ne: "filter chat_isGroup chats1 \<noteq> []" using assms(4) by auto
  have a: "initializeGroups feed k 1 = (filter chat_isGroup chats1, k + 2, [5000])"
    using initializeGroups_second_fetch [OF assms(1,2,3) ne assms(5), of 1] by simp
  have b: "length (fst (initializeGroups feed k 1)) = 12"
    using a assms(4) by simp
  have c: "fst (snd (initializeGroups feed' k' 1)) \<le> k' + 20"
    using initializeGroups_calls [of 1 feed' k'] by simp
  have d: "(\<forall>j. fetched_groups (feed' j) = []) \<longrightarrow> fst (initializeGroups feed' k' 1) = []"
    using initializeGroups_empty by blast
  have e: "isClientReady s \<and> client s \<longrightarrow>
          fst (group_refresh_tick feed k s) = filter chat_isGroup chats1"
  proof
    assume r: "isClientReady s \<and> client s"
    from group_refresh_tick_zero [of s feed k chats0] r assms(1,2)
    have "group_refresh_tick feed k s = persistent_initializeGroups feed (Suc k) 1 3 s"
      by simp
    with persistent_initializeGroups_success [of s feed "Suc k" chats1 1 3] r assms(3)
    show "fst (group_refresh_tick feed k s) = filter chat_isGroup chats1"
      by simp
  qed
  have f: "isClientReady s \<and> client s \<longrightarrow>
          run_group_task feed k FirstGroupLoad s = ([], Suc k, setTimeout 30000 SecondGroupLoad s)
          \<and> fst (run_group_task feed (Suc k) SecondGroupLoad (setTimeout 30000 SecondGroupLoad s))
              = filter chat_isGroup chats1"
  proof
    assume r: "isClientReady s \<and> client s"
    have p: "persistent_initializeGroups feed k 1 5 s = ([], Suc k, s)"
      using r assms(1,2)
      unfolding persistent_initializeGroups.simps [of feed k 1 5 s]
      by (simp add: Let_def)
    have r2: "isClientReady (setTimeout 30000 SecondGroupLoad s)" "client (setTimeout 30000 SecondGroupLoad s)"
      using r by (simp_all add: setTimeout_def)
    from persistent_initializeGroups_success [OF r2, of feed "Suc k" chats1 1 5] assms(3)
    have q: "fst (persistent_initializeGroups feed (Suc k) 1 5 (setTimeout 30000 SecondGroupLoad s))
        = filter chat_isGroup chats1" by simp
    show "run_group_task feed k FirstGroupLoad s = ([], Suc k, setTimeout 30000 SecondGroupLoad s)
          \<and> fst (run_group_task feed (Suc k) SecondGroupLoad (setTimeout 30000 SecondGroupLoad s))
              = filter chat_isGroup chats1"
      using p q by (simp add: run_group_task_def)
  qed
  from a b c d e f groupRefreshInterval_startConnectionMonitoring group_refresh_tick_keeps_interval
  show ?thesis by blast
qed

theorem roster_retry_until_groups_found_witness:
  "sample_feed 0 = Inr [] \<and> sample_feed 1 = Inr (replicate 12 sample_chat)
   \<and> length (filter chat_isGroup (replicate 12 sample_chat)) = 12
   \<and> initializeGroups sample_feed 0 1 = (replicate 12 sample_chat, 2, [5000])
   \<and> length (fst (initializeGroups sample_feed 0 1)) = 12"
proof -
  have f: "filter chat_isGroup (replicate 12 sample_chat) = replicate 12 sample_chat"
    by (simp add: sample_chat_def)
  have h: "sample_feed 0 = Inr []" "filter chat_isGroup [] = []"
      "sample_feed (Suc 0) = Inr (replicate 12 sample_chat)"
      "length (filter chat_isGroup (replicate 12 sample_chat)) = 12"
      "list_all (\<lambda>g. chat_id g \<noteq> None) (filter chat_isGroup (replicate 12 sample_chat))"
    by (simp_all add: sample_feed_def f) (simp add: sample_chat_def list_all_iff)
  from roster_retry_until_groups_found [OF h] h f
  show ?thesis by simp
qed

end
